theory Spec2Isabelle
  imports Main
begin

section \<open>JavaScript values\<close>

text \<open>
  Strings are \<open>string\<close>. An argument that may be \<open>undefined\<close> is an \<open>option\<close>.
  Numeric arguments are integers (the tool schemas describe line numbers, counts and ports).
\<close>

abbreviation bs :: char where "bs \<equiv> CHR 0x5C"
abbreviation sq :: char where "sq \<equiv> CHR 0x27"
abbreviation dq :: char where "dq \<equiv> CHR 0x22"
abbreviation nl :: char where "nl \<equiv> CHR 0x0A"

text \<open>JavaScript truthiness of an optional string: \<open>undefined\<close> and \<open>''\<close> are falsy.\<close>

definition truthy :: "string option \<Rightarrow> bool" where
  "truthy v = (case v of None \<Rightarrow> False | Some s \<Rightarrow> s \<noteq> [])"

text \<open>\<open>a || b\<close> on optional strings.\<close>

definition js_or :: "string option \<Rightarrow> string option \<Rightarrow> string option" where
  "js_or a b = (if truthy a then a else b)"

text \<open>\<open>Array.prototype.join\<close>.\<close>

fun join_with :: "string \<Rightarrow> string list \<Rightarrow> string" where
  "join_with sep [] = []"
| "join_with sep [x] = x"
| "join_with sep (x # y # ys) = x @ sep @ join_with sep (y # ys)"

text \<open>A number interpolated into a template literal: its decimal digits.\<close>

fun show_nat :: "nat \<Rightarrow> string" where
  "show_nat n =
     (if n < 10 then [''0123456789'' ! n]
      else show_nat (n div 10) @ [''0123456789'' ! (n mod 10)])"

definition show_int :: "int \<Rightarrow> string" where
  "show_int i = (if i < 0 then CHR ''-'' # show_nat (nat (- i)) else show_nat (nat i))"

text \<open>
  The exit code that ssh2 passes to the \<open>close\<close> handler: a number, or \<open>null\<close> or
  \<open>undefined\<close> when the remote process ended without one.
\<close>

datatype js_code = Num int | Null | Undefined

text \<open>\<open>code || 0\<close>: zero, \<open>null\<close> and \<open>undefined\<close> are falsy.\<close>

fun code_or_zero :: "js_code \<Rightarrow> int" where
  "code_or_zero (Num n) = n"
| "code_or_zero Null = 0"
| "code_or_zero Undefined = 0"

fun show_code :: "js_code \<Rightarrow> string" where
  "show_code (Num n) = show_int n"
| "show_code Null = ''null''"
| "show_code Undefined = ''undefined''"

text \<open>
  The object handed to \<open>JSON.stringify\<close>: its keys in the order they are written, each
  with its value.
\<close>

datatype json = JNull | JBool bool | JNum int | JStr string

type_synonym json_object = "(string \<times> json) list"

datatype ErrorCode = MethodNotFound | InternalError

section \<open>The SSH client (lib/ssh-client.js)\<close>

text \<open>
  What the program asks of Node, of the ssh2 library and of the MCP SDK is a parameter of
  the model: the home directory, \<open>path.join\<close>, \<open>readFileSync\<close> (\<open>None\<close> when it
  throws), \<open>String.prototype.trim\<close>, the course of the one session that
  \<open>conn.connect(config)\<close> starts, the environment variable \<open>SSH_PRIVATE_KEY\<close>,
  \<open>JSON.stringify(_, null, 2)\<close>, and the \<open>message\<close> property that the SDK gives an
  \<open>McpError\<close> built from a code and a message.
\<close>

record algorithms =
  kex :: "string list"

record config =
  cfg_host :: string
  cfg_port :: int
  username :: string
  privateKey :: string
  algorithms :: algorithms
  readyTimeout :: nat
  keepaliveInterval :: nat

text \<open>
  The events of a session, as the handlers of \<open>executeCommand\<close> see them: an
  \<open>error\<close> event of the connection; \<open>ready\<close> and then an error passed to the
  callback of \<open>conn.exec\<close>; or \<open>ready\<close>, the \<open>data\<close> chunks of stdout and of
  stderr, and \<open>close\<close> with the exit code. A session is taken to end in one of
  these three ways.
\<close>

datatype session =
    ConnError string
  | ExecError string
  | Closed "string list" "string list" js_code

record runtime =
  homedir :: string
  path_join :: "string list \<Rightarrow> string"
  readFileSync :: "string \<Rightarrow> string option"
  trim :: "string \<Rightarrow> string"
  connect :: "config \<Rightarrow> string \<Rightarrow> session"
  env_SSH_PRIVATE_KEY :: "string option"
  JSON_stringify :: "json_object \<Rightarrow> string"
  McpError_message :: "ErrorCode \<Rightarrow> string \<Rightarrow> string"

text \<open>The effects of a call, in the order they happen.\<close>

datatype effect = ReadFile string | Connect config | Exec string

record SSHClient =
  defaultKeyPaths :: "string list"

definition new_SSHClient :: "runtime \<Rightarrow> SSHClient" where
  "new_SSHClient rt =
     \<lparr>defaultKeyPaths =
        [path_join rt [homedir rt, ''.ssh'', ''id_rsa''],
         path_join rt [homedir rt, ''.ssh'', ''id_ed25519''],
         path_join rt [homedir rt, ''.ssh'', ''id_ecdsa'']]\<rparr>"

text \<open>
  The loop of \<open>getPrivateKey\<close>: read each path in turn, return the first file read.
  The first component is the list of paths handed to \<open>readFileSync\<close>.
\<close>

fun tryPaths :: "(string \<Rightarrow> string option) \<Rightarrow> string list \<Rightarrow> string list \<times> string option" where
  "tryPaths rd [] = ([], None)"
| "tryPaths rd (p # ps) =
     (case rd p of
        Some k \<Rightarrow> ([p], Some k)
      | None \<Rightarrow> (case tryPaths rd ps of (tried, r) \<Rightarrow> (p # tried, r)))"

definition candidatePaths :: "SSHClient \<Rightarrow> string option \<Rightarrow> string list" where
  "candidatePaths c keyPath =
     (case keyPath of
        Some p \<Rightarrow> if p \<noteq> [] then [p] else defaultKeyPaths c
      | None \<Rightarrow> defaultKeyPaths c)"

definition noKeyMessage :: "string list \<Rightarrow> string" where
  "noKeyMessage paths =
     ''No private key found. Tried: '' @ join_with '', '' paths @ [nl] @
     ''Please provide privateKeyPath or set SSH_PRIVATE_KEY environment variable''"

text \<open>\<open>getPrivateKey\<close>: the paths read, and the key (\<open>Inr\<close>) or the message of the error thrown (\<open>Inl\<close>).\<close>

definition getPrivateKey :: "runtime \<Rightarrow> SSHClient \<Rightarrow> string option \<Rightarrow> string list \<times> (string + string)" where
  "getPrivateKey rt c keyPath =
     (let paths = candidatePaths c keyPath in
      case tryPaths (readFileSync rt) paths of
        (tried, Some k) \<Rightarrow> (tried, Inr k)
      | (tried, None) \<Rightarrow> (tried, Inl (noKeyMessage paths)))"

record ExecutionResult =
  res_output :: string
  res_error :: "string option"
  res_exitCode :: js_code

record exec_options =
  opt_host :: string
  opt_user :: string
  opt_command :: string
  opt_privateKeyPath :: "string option"
  opt_port :: "int option"

definition kexAllowList :: "string list" where
  "kexAllowList =
     [''ecdh-sha2-nistp256'',
      ''ecdh-sha2-nistp384'',
      ''ecdh-sha2-nistp521'',
      ''diffie-hellman-group14-sha256'']"

definition connectionConfig :: "exec_options \<Rightarrow> string \<Rightarrow> config" where
  "connectionConfig opts key =
     \<lparr>cfg_host = opt_host opts,
      cfg_port = (case opt_port opts of None \<Rightarrow> 22 | Some p \<Rightarrow> p),
      username = opt_user opts,
      privateKey = key,
      algorithms = \<lparr>kex = kexAllowList\<rparr>,
      readyTimeout = 20000,
      keepaliveInterval = 30000\<rparr>"

text \<open>
  \<open>executeCommand\<close>: the effects, and the value the promise resolves with (\<open>Inr\<close>) or the
  message of the error it rejects with (\<open>Inl\<close>).
\<close>

definition executeCommand ::
  "runtime \<Rightarrow> SSHClient \<Rightarrow> exec_options \<Rightarrow> effect list \<times> (string + ExecutionResult)" where
  "executeCommand rt c opts =
     (case getPrivateKey rt c (opt_privateKeyPath opts) of
        (tried, Inl msg) \<Rightarrow> (map ReadFile tried, Inl (''Private key error: '' @ msg))
      | (tried, Inr key) \<Rightarrow>
          (let cfg = connectionConfig opts key in
           case connect rt cfg (opt_command opts) of
             ConnError m \<Rightarrow>
               (map ReadFile tried @ [Connect cfg], Inl (''SSH connection failed: '' @ m))
           | ExecError m \<Rightarrow>
               (map ReadFile tried @ [Connect cfg, Exec (opt_command opts)],
                Inl (''Execution failed: '' @ m))
           | Closed outs errs code \<Rightarrow>
               (map ReadFile tried @ [Connect cfg, Exec (opt_command opts)],
                Inr \<lparr>res_output = trim rt (concat outs),
                     res_error = (if trim rt (concat errs) = [] then None
                              else Some (trim rt (concat errs))),
                     res_exitCode = code\<rparr>)))"

section \<open>The tool server (index.js)\<close>

text \<open>
  The argument bag of a tool call. Every field may be absent (\<open>None\<close> is
  \<open>undefined\<close>); the handlers put the defaults in.
\<close>

record args =
  host :: "string option"
  user :: "string option"
  command :: "string option"
  privateKeyPath :: "string option"
  port :: "int option"
  filePath :: "string option"
  oldText :: "string option"
  newText :: "string option"
  expectedReplacements :: "int option"
  startLine :: "int option"
  endLine :: "int option"
  maxLines :: "int option"
  path :: "string option"
  pattern :: "string option"
  filePattern :: "string option"
  ignoreCase :: "bool option"
  maxResults :: "int option"
  contextLines :: "int option"
  content :: "string option"
  mode :: "string option"

text \<open>A destructuring default, \<open>{ x = d } = args\<close>: it applies when the field is \<open>undefined\<close>.\<close>

definition default_to :: "'a \<Rightarrow> 'a option \<Rightarrow> 'a" where
  "default_to d v = (case v of None \<Rightarrow> d | Some x \<Rightarrow> x)"

text \<open>The response body of a tool: \<open>{ content: [{ type: 'text', text }] }\<close>.\<close>

datatype content_item = Text string

datatype response = Content "content_item list"

text \<open>What a handler throws: a plain \<open>Error\<close> with its message, or an \<open>McpError\<close>.\<close>

datatype thrown = Error string | McpError ErrorCode string

fun message :: "runtime \<Rightarrow> thrown \<Rightarrow> string" where
  "message rt (Error m) = m"
| "message rt (McpError code m) = McpError_message rt code m"

definition options :: "runtime \<Rightarrow> args \<Rightarrow> string \<Rightarrow> string \<Rightarrow> string \<Rightarrow> exec_options" where
  "options rt a h u c =
     \<lparr>opt_host = h, opt_user = u, opt_command = c,
      opt_privateKeyPath = js_or (privateKeyPath a) (env_SSH_PRIVATE_KEY rt),
      opt_port = Some (default_to 22 (port a))\<rparr>"

subsection \<open>remote-ssh\<close>

definition successEnvelope :: "ExecutionResult \<Rightarrow> string \<Rightarrow> string \<Rightarrow> json_object" where
  "successEnvelope result h c =
     [(''success'', JBool True),
      (''output'', JStr (res_output result)),
      (''error'', (if truthy (res_error result)
                   then JStr (default_to [] (res_error result)) else JNull)),
      (''exitCode'', JNum (code_or_zero (res_exitCode result))),
      (''host'', JStr h),
      (''command'', JStr c)]"

definition failureEnvelope :: "string \<Rightarrow> string \<Rightarrow> string \<Rightarrow> json_object" where
  "failureEnvelope msg h c =
     [(''success'', JBool False),
      (''output'', JStr []),
      (''error'', JStr msg),
      (''exitCode'', JNum 1),
      (''host'', JStr h),
      (''command'', JStr c)]"

definition executeSSHCommand :: "runtime \<Rightarrow> args \<Rightarrow> effect list \<times> (thrown + response)" where
  "executeSSHCommand rt a =
     (case (host a, user a, command a) of
        (Some h, Some u, Some c) \<Rightarrow>
          if h = [] \<or> u = [] \<or> c = []
          then ([], Inl (Error ''Missing required parameters: host, user, command''))
          else
            (case executeCommand rt (new_SSHClient rt) (options rt a h u c) of
               (fx, Inr result) \<Rightarrow>
                 (fx, Inr (Content [Text (JSON_stringify rt (successEnvelope result h c))]))
             | (fx, Inl msg) \<Rightarrow>
                 (fx, Inr (Content [Text (JSON_stringify rt (failureEnvelope msg h c))])))
      | _ \<Rightarrow> ([], Inl (Error ''Missing required parameters: host, user, command'')))"

subsection \<open>ssh-edit-block\<close>

text \<open>\<open>.replace(/[[\]/]/g, '\\$&')\<close>: a backslash before every \<open>[\<close>, \<open>]\<close> and \<open>/\<close>.\<close>

fun escapeBrackets :: "string \<Rightarrow> string" where
  "escapeBrackets [] = []"
| "escapeBrackets (c # cs) =
     (if c = CHR ''['' \<or> c = CHR '']'' \<or> c = CHR ''/''
      then bs # c # escapeBrackets cs
      else c # escapeBrackets cs)"

text \<open>\<open>.replace(/\//g, '\\/')\<close>: a backslash before every \<open>/\<close>.\<close>

fun escapeSlashes :: "string \<Rightarrow> string" where
  "escapeSlashes [] = []"
| "escapeSlashes (c # cs) =
     (if c = CHR ''/'' then bs # c # escapeSlashes cs else c # escapeSlashes cs)"

text \<open>\<open>escapedOld\<close> and \<open>escapedNew\<close>: the first replacement, then the second on its result.\<close>

definition escaped :: "string \<Rightarrow> string" where
  "escaped t = escapeSlashes (escapeBrackets t)"

definition sedLine :: "string \<Rightarrow> string \<Rightarrow> string \<Rightarrow> string" where
  \<open>sedLine fp old new =
     ''      sed -i '' @ [sq] @ ''s/'' @ escaped old @ ''/'' @ escaped new @ ''/g'' @ [sq] @
     '' "'' @ fp @ ''"''\<close>

definition sedCommand :: "string \<Rightarrow> string \<Rightarrow> string \<Rightarrow> int \<Rightarrow> string" where
  \<open>sedCommand fp old new expected =
     join_with [nl]
       [[],
        ''      if [ ! -f "'' @ fp @ ''" ]; then'',
        ''        echo "Error: File '' @ fp @ '' not found"'',
        ''        exit 1'',
        ''      fi'',
        ''      '',
        ''      # Count occurrences before replacement'',
        ''      before_count=$(grep -F "'' @ old @ ''" "'' @ fp @ ''" | wc -l)'',
        ''      '',
        ''      # Create backup'',
        ''      cp "'' @ fp @ ''" "'' @ fp @ ''.backup.$(date +%s)"'',
        ''      '',
        ''      # Perform replacement'',
        sedLine fp old new,
        ''      '',
        ''      # Count occurrences after replacement'',
        ''      after_count=$(grep -F "'' @ new @ ''" "'' @ fp @ ''" | wc -l)'',
        ''      '',
        ''      echo "Replacements made: $((before_count - after_count + after_count))"'',
        ''      echo "Expected: '' @ show_int expected @ ''"'',
        ''      '',
        ''      if [ "$before_count" -eq "0" ]; then'',
        ''        echo "Warning: Pattern not found in file"'',
        ''        exit 2'',
        ''      fi'',
        ''    '']\<close>

definition executeEditBlock :: "runtime \<Rightarrow> args \<Rightarrow> effect list \<times> (thrown + response)" where
  "executeEditBlock rt a =
     (case (host a, user a, filePath a, oldText a, newText a) of
        (Some h, Some u, Some fp, Some old, Some new) \<Rightarrow>
          if h = [] \<or> u = [] \<or> fp = [] \<or> old = [] \<or> new = []
          then ([], Inl (Error
                  ''Missing required parameters: host, user, filePath, oldText, newText''))
          else
            (case executeCommand rt (new_SSHClient rt)
                    (options rt a h u
                       (sedCommand fp old new (default_to 1 (expectedReplacements a)))) of
               (fx, Inr result) \<Rightarrow>
                 (fx, Inr (Content [Text
                    (''Edit block completed on '' @ fp @ [nl] @ res_output result @ [nl] @
                     ''Exit code: '' @ show_code (res_exitCode result))]))
             | (fx, Inl msg) \<Rightarrow>
                 (fx, Inr (Content [Text (''Edit block failed: '' @ msg)])))
      | _ \<Rightarrow> ([], Inl (Error
                  ''Missing required parameters: host, user, filePath, oldText, newText'')))"

subsection \<open>ssh-read-lines\<close>

text \<open>\<open>if (endLine)\<close>: \<open>undefined\<close> and \<open>0\<close> are falsy.\<close>

definition readCommand :: "string \<Rightarrow> int \<Rightarrow> int option \<Rightarrow> int \<Rightarrow> string" where
  \<open>readCommand fp start end_line max_lines =
     (case end_line of
        Some e \<Rightarrow>
          if e \<noteq> 0
          then ''sed -n '' @ [sq] @ show_int start @ '','' @ show_int e @ ''p'' @ [sq] @
               '' "'' @ fp @ ''"''
          else ''sed -n '' @ [sq] @ show_int start @ '',$p'' @ [sq] @
               '' "'' @ fp @ ''" | head -'' @ show_int max_lines
      | None \<Rightarrow>
          ''sed -n '' @ [sq] @ show_int start @ '',$p'' @ [sq] @
          '' "'' @ fp @ ''" | head -'' @ show_int max_lines)\<close>

text \<open>
  The template escapes the dollar sign of its range line (\<open>\${endLine || 'end'}\<close>), so
  that text is part of the script as it stands; \<open>endLine\<close> is not interpolated there.
\<close>

definition rangeLine :: "int \<Rightarrow> int \<Rightarrow> string" where
  \<open>rangeLine start max_lines =
     ''      echo "Reading lines '' @ show_int start @ ''-${endLine || '' @ [sq] @ ''end'' @ [sq] @
     ''} (max '' @ show_int max_lines @ '')"''\<close>

definition readLinesCommand :: "string \<Rightarrow> int \<Rightarrow> int option \<Rightarrow> int \<Rightarrow> string" where
  \<open>readLinesCommand fp start end_line max_lines =
     join_with [nl]
       [[],
        ''      if [ ! -f "'' @ fp @ ''" ]; then'',
        ''        echo "Error: File '' @ fp @ '' not found"'',
        ''        exit 1'',
        ''      fi'',
        ''      '',
        ''      total_lines=$(wc -l < "'' @ fp @ ''")'',
        ''      echo "File: '' @ fp @ '' (${total_lines} total lines)"'',
        rangeLine start max_lines,
        ''      echo "--- Content ---"'',
        ''      '' @ readCommand fp start end_line max_lines,
        ''    '']\<close>

definition executeReadLines :: "runtime \<Rightarrow> args \<Rightarrow> effect list \<times> (thrown + response)" where
  "executeReadLines rt a =
     (case (host a, user a, filePath a) of
        (Some h, Some u, Some fp) \<Rightarrow>
          if h = [] \<or> u = [] \<or> fp = []
          then ([], Inl (Error ''Missing required parameters: host, user, filePath''))
          else
            (case executeCommand rt (new_SSHClient rt)
                    (options rt a h u
                       (readLinesCommand fp (default_to 1 (startLine a)) (endLine a)
                          (default_to 100 (maxLines a)))) of
               (fx, Inr result) \<Rightarrow> (fx, Inr (Content [Text (res_output result)]))
             | (fx, Inl msg) \<Rightarrow> (fx, Inr (Content [Text (''Read lines failed: '' @ msg)])))
      | _ \<Rightarrow> ([], Inl (Error ''Missing required parameters: host, user, filePath'')))"

subsection \<open>ssh-search-code\<close>

definition grepOptions :: "bool \<Rightarrow> int \<Rightarrow> string" where
  "grepOptions ignore_case context_lines =
     ''-n'' @ (if ignore_case then ''i'' else []) @
     (if context_lines > 0 then '' -C'' @ show_int context_lines else [])"

definition findPattern :: "string option \<Rightarrow> string" where
  \<open>findPattern file_pattern =
     (if truthy file_pattern then ''-name "'' @ default_to [] file_pattern @ ''"''
      else ''-type f'')\<close>

definition searchCommand ::
  "string \<Rightarrow> string \<Rightarrow> string option \<Rightarrow> bool \<Rightarrow> int \<Rightarrow> int \<Rightarrow> string" where
  \<open>searchCommand dir pat file_pattern ignore_case max_results context_lines =
     join_with [nl]
       [[],
        ''      if [ ! -d "'' @ dir @ ''" ]; then'',
        ''        echo "Error: Directory '' @ dir @ '' not found"'',
        ''        exit 1'',
        ''      fi'',
        ''      '',
        ''      echo "Searching in: '' @ dir @ ''"'',
        ''      echo "Pattern: '' @ pat @ ''"'',
        ''      echo "File pattern: '' @
          (if truthy file_pattern then default_to [] file_pattern else ''all files'') @ ''"'',
        ''      echo "--- Results ---"'',
        ''      '',
        ''      find "'' @ dir @ ''" '' @ findPattern file_pattern @ '' -exec grep '' @
          grepOptions ignore_case context_lines @ '' "'' @ pat @
          ''" {} + 2>/dev/null | head -'' @ show_int max_results,
        ''    '']\<close>

definition executeSearchCode :: "runtime \<Rightarrow> args \<Rightarrow> effect list \<times> (thrown + response)" where
  "executeSearchCode rt a =
     (case (host a, user a, path a, pattern a) of
        (Some h, Some u, Some dir, Some pat) \<Rightarrow>
          if h = [] \<or> u = [] \<or> dir = [] \<or> pat = []
          then ([], Inl (Error ''Missing required parameters: host, user, path, pattern''))
          else
            (case executeCommand rt (new_SSHClient rt)
                    (options rt a h u
                       (searchCommand dir pat (filePattern a) (default_to False (ignoreCase a))
                          (default_to 50 (maxResults a)) (default_to 2 (contextLines a)))) of
               (fx, Inr result) \<Rightarrow>
                 (fx, Inr (Content [Text
                    (if res_output result \<noteq> [] then res_output result
                     else ''No matches found'')]))
             | (fx, Inl msg) \<Rightarrow> (fx, Inr (Content [Text (''Search failed: '' @ msg)])))
      | _ \<Rightarrow> ([], Inl (Error ''Missing required parameters: host, user, path, pattern'')))"

subsection \<open>ssh-write-chunk\<close>

text \<open>\<open>content.replace(/'/g, "'\"'\"'")\<close>: every single quote becomes \<open>'"'"'\<close>.\<close>

fun escapedContent :: "string \<Rightarrow> string" where
  "escapedContent [] = []"
| "escapedContent (c # cs) =
     (if c = sq then [sq, dq, sq, dq, sq] @ escapedContent cs else c # escapedContent cs)"

definition writeCommand :: "string \<Rightarrow> string \<Rightarrow> string \<Rightarrow> string" where
  \<open>writeCommand fp text m =
     (if m = ''append''
      then ''echo '' @ [sq] @ escapedContent text @ [sq] @ '' >> "'' @ fp @ ''"''
      else ''echo '' @ [sq] @ escapedContent text @ [sq] @ '' > "'' @ fp @ ''"'')\<close>

definition writeChunkCommand :: "string \<Rightarrow> string \<Rightarrow> string \<Rightarrow> string" where
  \<open>writeChunkCommand fp text m =
     join_with [nl]
       [[],
        ''      # Create directory if it doesn'' @ [sq] @ ''t exist'',
        ''      mkdir -p "$(dirname "'' @ fp @ ''")"'',
        ''      '',
        ''      # Write content'',
        ''      '' @ writeCommand fp text m,
        ''      '',
        ''      # Verify write'',
        ''      if [ $? -eq 0 ]; then'',
        ''        echo "Successfully wrote to '' @ fp @ '' (mode: '' @ m @ '')"'',
        ''        echo "File size: $(wc -c < "'' @ fp @ ''") bytes"'',
        ''        echo "Line count: $(wc -l < "'' @ fp @ ''") lines"'',
        ''      else'',
        ''        echo "Failed to write to '' @ fp @ ''"'',
        ''        exit 1'',
        ''      fi'',
        ''    '']\<close>

definition executeWriteChunk :: "runtime \<Rightarrow> args \<Rightarrow> effect list \<times> (thrown + response)" where
  "executeWriteChunk rt a =
     (case (host a, user a, filePath a, content a) of
        (Some h, Some u, Some fp, Some text) \<Rightarrow>
          if h = [] \<or> u = [] \<or> fp = [] \<or> text = []
          then ([], Inl (Error ''Missing required parameters: host, user, filePath, content''))
          else
            (case executeCommand rt (new_SSHClient rt)
                    (options rt a h u
                       (writeChunkCommand fp text (default_to ''rewrite'' (mode a)))) of
               (fx, Inr result) \<Rightarrow> (fx, Inr (Content [Text (res_output result)]))
             | (fx, Inl msg) \<Rightarrow> (fx, Inr (Content [Text (''Write chunk failed: '' @ msg)])))
      | _ \<Rightarrow> ([], Inl (Error ''Missing required parameters: host, user, filePath, content'')))"

subsection \<open>The call handler\<close>

text \<open>The \<open>switch\<close> on the tool name, inside the handler's \<open>try\<close>.\<close>

definition dispatch :: "runtime \<Rightarrow> string \<Rightarrow> args \<Rightarrow> effect list \<times> (thrown + response)" where
  "dispatch rt name a =
     (if name = ''remote-ssh'' then executeSSHCommand rt a
      else if name = ''ssh-edit-block'' then executeEditBlock rt a
      else if name = ''ssh-read-lines'' then executeReadLines rt a
      else if name = ''ssh-search-code'' then executeSearchCode rt a
      else if name = ''ssh-write-chunk'' then executeWriteChunk rt a
      else ([], Inl (McpError MethodNotFound (''Unknown tool: '' @ name))))"

text \<open>
  The handler of \<open>CallToolRequestSchema\<close>: whatever the \<open>try\<close> throws, the \<open>catch\<close>
  throws anew as an \<open>McpError\<close> with the code \<open>InternalError\<close>.
\<close>

definition callTool :: "runtime \<Rightarrow> string \<Rightarrow> args \<Rightarrow> effect list \<times> (thrown + response)" where
  "callTool rt name a =
     (case dispatch rt name a of
        (fx, Inr r) \<Rightarrow> (fx, Inr r)
      | (fx, Inl e) \<Rightarrow>
          (fx, Inl (McpError InternalError (''SSH operation failed: '' @ message rt e))))"

section \<open>The scripts on the remote host\<close>

subsection \<open>The report of the edit-block script\<close>

text \<open>
  The arithmetic expansion \<open>$((before_count - after_count + after_count))\<close> of the
  script, on the two counts that \<open>grep -F ... | wc -l\<close> printed. The counts are
  numbers of lines, far inside the range of the shell's integers.
\<close>

definition replacementsMade :: "int \<Rightarrow> int \<Rightarrow> int" where
  "replacementsMade before_count after_count = before_count - after_count + after_count"

text \<open>
  The end of the script, from the first \<open>echo\<close> on: the lines it prints and its exit
  code (that of the closing \<open>if\<close>, which is 0 when the test fails).
\<close>

definition editBlockReport :: "int \<Rightarrow> int \<Rightarrow> int \<Rightarrow> string list \<times> int" where
  "editBlockReport before_count after_count expected =
     (if before_count = 0
      then ([''Replacements made: '' @ show_int (replacementsMade before_count after_count),
             ''Expected: '' @ show_int expected,
             ''Warning: Pattern not found in file''], 2)
      else ([''Replacements made: '' @ show_int (replacementsMade before_count after_count),
             ''Expected: '' @ show_int expected], 0))"

subsection \<open>A fragment of the POSIX shell\<close>

text \<open>
  The tools send their scripts to the login shell of the remote user, taken here to be a
  POSIX shell. This part gives a meaning to the part of the shell language in which
  the script of \<open>executeWriteChunk\<close> and the report at the end of the script of
  \<open>executeEditBlock\<close> are written: words made of plain characters, of texts in single
  and in double quotes, and inside double quotes of parameter, arithmetic and command
  expansions; comments; the redirections \<open>>\<close>, \<open>>>\<close> and \<open><\<close>; the commands
  \<open>echo\<close>, \<open>[ x -eq y ]\<close>, \<open>mkdir -p\<close> and \<open>exit\<close>; and \<open>if\<close>, \<open>else\<close>,
  \<open>fi\<close>. Each function takes the text of the script as the tool built it and returns
  \<open>None\<close> on whatever is outside this part, so that a result \<open>Some\<close> is a run that
  was followed command by command.
\<close>

subsubsection \<open>Words\<close>

definition is_digit :: "char \<Rightarrow> bool" where
  "is_digit c = (c \<in> set ''0123456789'')"

definition is_alpha :: "char \<Rightarrow> bool" where
  "is_alpha c = (c \<in> set ''abcdefghijklmnopqrstuvwxyzABCDEFGHIJKLMNOPQRSTUVWXYZ_'')"

definition name_char :: "char \<Rightarrow> bool" where
  "name_char c = (is_alpha c \<or> is_digit c)"

definition bare_ok :: "char \<Rightarrow> bool" where
  "bare_ok c = (name_char c \<or> c \<in> set ''-./:,+%@='')"

text \<open>
  A word is a list of segments: a plain character, a quoted text (taken as it stands),
  the value of a parameter (\<open>$name\<close>, \<open>${name}\<close>), the exit status of the last
  command (\<open>$?\<close>), an arithmetic expansion \<open>$((...))\<close> and a command substitution
  \<open>$(...)\<close>, both kept as text until the word is expanded. A token is a word, an
  operator or the end of a line.
\<close>

datatype seg = Bare char | Quoted string | Param string | Status | Arith string | CmdSub string

datatype tok = Wd "seg list" | Op string | Nl

datatype lexmode = AtStart | InWord | InComment

text \<open>
  Between single quotes every character stands for itself, up to the next single quote.
\<close>

fun scan_sq :: "string \<Rightarrow> (string \<times> string) option" where
  "scan_sq [] = None"
| "scan_sq (c # cs) =
     (if c = sq then Some ([], cs)
      else (case scan_sq cs of None \<Rightarrow> None | Some (q, r) \<Rightarrow> Some (c # q, r)))"

definition scan_name :: "string \<Rightarrow> string \<times> string" where
  "scan_name s = (takeWhile name_char s, dropWhile name_char s)"

text \<open>
  The text of an arithmetic expansion, up to its closing \<open>))\<close>: names, numbers,
  \<open>+\<close>, \<open>-\<close> and blanks.
\<close>

fun scan_arith :: "string \<Rightarrow> (string \<times> string) option" where
  "scan_arith [] = None"
| "scan_arith (c # cs) =
     (if c = CHR '')'' then
        (case cs of [] \<Rightarrow> None | d # ds \<Rightarrow> if d = CHR '')'' then Some ([], ds) else None)
      else if name_char c \<or> c \<in> set '' +-'' then
        (case scan_arith cs of None \<Rightarrow> None | Some (e, r) \<Rightarrow> Some (c # e, r))
      else None)"

text \<open>
  The text of a command substitution, up to its closing parenthesis. The flag tells
  whether the text read so far has an open double quote, inside which a parenthesis does
  not close the substitution. Backslashes, backquotes, single quotes, subshells and
  nested substitutions are left out.
\<close>

fun scan_cmdsub :: "bool \<Rightarrow> string \<Rightarrow> (string \<times> string) option" where
  "scan_cmdsub q [] = None"
| "scan_cmdsub q (c # cs) =
     (if c = dq then
        (case scan_cmdsub (\<not> q) cs of None \<Rightarrow> None | Some (t, r) \<Rightarrow> Some (c # t, r))
      else if c = bs \<or> c = CHR 0x60 \<or> c = CHR 0x00 then None
      else if c = CHR ''$'' \<and> take 1 cs = ''('' then None
      else if q then
        (case scan_cmdsub q cs of None \<Rightarrow> None | Some (t, r) \<Rightarrow> Some (c # t, r))
      else if c = CHR '')'' then Some ([], cs)
      else if c = sq \<or> c = CHR ''('' then None
      else (case scan_cmdsub q cs of None \<Rightarrow> None | Some (t, r) \<Rightarrow> Some (c # t, r)))"

text \<open>
  Literal text in front of the segments of a word: it is joined to a quoted text that
  follows it, and empty text adds nothing.
\<close>

definition lit :: "string \<Rightarrow> seg list \<Rightarrow> seg list" where
  "lit q segs =
     (if q = [] then segs
      else (case segs of
              Quoted q' # rest \<Rightarrow> Quoted (q @ q') # rest
            | _ \<Rightarrow> Quoted q # segs))"

definition lit_cons :: "string \<Rightarrow> (seg list \<times> string) option \<Rightarrow> (seg list \<times> string) option" where
  "lit_cons q r = (case r of None \<Rightarrow> None | Some (segs, rest) \<Rightarrow> Some (lit q segs, rest))"

definition seg_cons :: "seg \<Rightarrow> (seg list \<times> string) option \<Rightarrow> (seg list \<times> string) option" where
  "seg_cons x r = (case r of None \<Rightarrow> None | Some (segs, rest) \<Rightarrow> Some (x # segs, rest))"

text \<open>
  Each scanner hands back less text than it was given; the recursion of the lexer rests
  on it.
\<close>

lemma scan_sq_length: "scan_sq s = Some (q, r) \<Longrightarrow> length r < length s"
  by (induction s arbitrary: q r) (auto split: if_splits option.splits)

lemma scan_arith_length: "scan_arith s = Some (e, r) \<Longrightarrow> length r < length s"
  by (induction s arbitrary: e r) (auto split: if_splits option.splits list.splits)

lemma scan_cmdsub_length: "scan_cmdsub q s = Some (t, r) \<Longrightarrow> length r < length s"
  by (induction q s arbitrary: t r rule: scan_cmdsub.induct) (auto split: if_splits option.splits)

lemma dropWhile_shorter: "length (dropWhile P xs) - k \<le> Suc (length xs)"
  using length_dropWhile_le [of P xs] by arith

lemma scan_name_length: "scan_name s = (n, r) \<Longrightarrow> length r \<le> length s"
  by (auto simp: scan_name_def length_dropWhile_le)

text \<open>
  One step inside double quotes, on a text that does not begin with the closing quote:
  the literal text read, the expansion that follows it if there is one, and the rest.
\<close>

definition dq_step :: "char \<Rightarrow> string \<Rightarrow> ((string \<times> seg option) \<times> string) option" where
  "dq_step c cs =
     (if c = CHR 0x60 \<or> c = CHR 0x00 then None
      else if c = bs then
        (case cs of
           [] \<Rightarrow> None
         | d # ds \<Rightarrow>
             if d = dq \<or> d = bs \<or> d = CHR ''$'' \<or> d = CHR 0x60 then Some (([d], None), ds)
             else if d = nl then Some (([], None), ds)
             else Some (([bs], None), cs))
      else if c = CHR ''$'' then
        (case cs of
           [] \<Rightarrow> None
         | d # ds \<Rightarrow>
             if d = CHR ''('' then
               (if take 1 ds = ''('' then
                  (case scan_arith (drop 1 ds) of
                     None \<Rightarrow> None
                   | Some (e, r) \<Rightarrow> Some (([], Some (Arith e)), r))
                else
                  (case scan_cmdsub False ds of
                     None \<Rightarrow> None
                   | Some (t, r) \<Rightarrow> Some (([], Some (CmdSub t)), r)))
             else if d = CHR ''{'' then
               (case scan_name ds of
                  (n, r) \<Rightarrow>
                    if n \<noteq> [] \<and> is_alpha (hd n) \<and> take 1 r = ''}''
                    then Some (([], Some (Param n)), drop 1 r)
                    else None)
             else if d = CHR ''?'' then Some (([], Some Status), ds)
             else if is_alpha d then
               (case scan_name cs of (n, r) \<Rightarrow> Some (([], Some (Param n)), r))
             else if is_digit d \<or> d \<in> set ''@*#$!-'' then None
             else Some ((''$'', None), cs))
      else Some (([c], None), cs))"

lemma dq_step_length: "dq_step c cs = Some (x, r) \<Longrightarrow> length r \<le> length cs"
proof -
  assume a: "dq_step c cs = Some (x, r)"
  have drop1: "length (drop 1 t) \<le> length t" for t :: string by simp
  show ?thesis
  proof (cases cs)
    case Nil
    with a show ?thesis by (auto simp: dq_step_def split: if_splits)
  next
    case (Cons d ds)
    have ar: "scan_arith (drop (Suc 0) ds) = Some (e, r') \<Longrightarrow> length r' \<le> Suc (length ds)" for e r'
      using scan_arith_length [of "drop (Suc 0) ds" e r'] by simp
    have cm: "scan_cmdsub False ds = Some (t, r') \<Longrightarrow> length r' \<le> Suc (length ds)" for t r'
      using scan_cmdsub_length [of False ds t r'] by simp
    have nm1: "length (dropWhile name_char ds) - Suc 0 \<le> Suc (length ds)"
      using length_dropWhile_le [of name_char ds] by arith
    have nm2: "length (dropWhile name_char (d # ds)) \<le> Suc (length ds)"
      using length_dropWhile_le [of name_char "d # ds"] by simp
    from a Cons show ?thesis
      by (auto simp: dq_step_def scan_name_def split: if_splits option.splits
          dest: ar cm intro: nm1 nm2 simp del: dropWhile.simps)
  qed
qed

function scan_dq :: "string \<Rightarrow> (seg list \<times> string) option" where
  "scan_dq [] = None"
| "scan_dq (c # cs) =
     (if c = dq then Some ([], cs)
      else
        (case dq_step c cs of
           None \<Rightarrow> None
         | Some ((q, x), r) \<Rightarrow>
             (case scan_dq r of
                None \<Rightarrow> None
              | Some (segs, rest) \<Rightarrow>
                  Some (lit q (case x of None \<Rightarrow> segs | Some g \<Rightarrow> g # segs), rest))))"
  by pat_completeness auto
termination
  by (relation "measure length") (auto dest: dq_step_length)

lemma scan_dq_length: "scan_dq s = Some (segs, r) \<Longrightarrow> length r < length s"
proof (induction s arbitrary: segs r rule: scan_dq.induct)
  case 1
  then show ?case by simp
next
  case (2 c cs)
  show ?case
  proof (cases "c = dq")
    case True
    with "2.prems" show ?thesis by simp
  next
    case False
    with "2.prems" obtain q x r' segs' where
      st: "dq_step c cs = Some ((q, x), r')" and rec: "scan_dq r' = Some (segs', r)"
      by (auto split: option.splits)
    from "2.IH" [OF False st refl refl rec] dq_step_length [OF st]
    show ?thesis by simp
  qed
qed

text \<open>
  The lexer returns the tokens of a text and whether the first of them is the rest of a
  word that has already begun. \<open>glue\<close> puts segments in front of such a rest, or as a
  word of their own; \<open>apart\<close> puts tokens in front after a separator.
\<close>

definition glue :: "seg list \<Rightarrow> (tok list \<times> bool) option \<Rightarrow> (tok list \<times> bool) option" where
  "glue segs r =
     (case r of
        None \<Rightarrow> None
      | Some (ts, joined) \<Rightarrow>
          (case ts of
             Wd w # us \<Rightarrow> if joined then Some (Wd (segs @ w) # us, True)
                         else Some (Wd segs # ts, True)
           | _ \<Rightarrow> Some (Wd segs # ts, True)))"

definition apart :: "tok list \<Rightarrow> (tok list \<times> bool) option \<Rightarrow> (tok list \<times> bool) option" where
  "apart pre r = (case r of None \<Rightarrow> None | Some (ts, joined) \<Rightarrow> Some (pre @ ts, False))"

definition at_break :: "string \<Rightarrow> bool" where
  "at_break cs =
     (case cs of
        [] \<Rightarrow> True
      | d # ds \<Rightarrow> d = CHR '' '' \<or> d = CHR 0x09 \<or> d = nl \<or> d = CHR '';'')"

text \<open>
  The lexer. A newline ends a command; blanks separate words; \<open>#\<close> at the start of a
  word opens a comment that runs to the end of the line (a quote inside it is not a
  quote); a double-quoted text contributes an empty quoted segment, so that \<open>""\<close> is a
  word; \<open>[\<close> and \<open>]\<close> are taken only as words of their own. Any other character
  (a pipe, \<open>&\<close>, a parenthesis, a backquote, a backslash, \<open>$\<close> other than in
  \<open>$?\<close>) makes the text unreadable.
\<close>

function lex :: "lexmode \<Rightarrow> string \<Rightarrow> (tok list \<times> bool) option" where
  "lex m [] = Some ([], False)"
| "lex m (c # cs) =
     (if m = InComment then (if c = nl then apart [Nl] (lex AtStart cs) else lex InComment cs)
      else if c = nl then apart [Nl] (lex AtStart cs)
      else if c = CHR '' '' \<or> c = CHR 0x09 then apart [] (lex AtStart cs)
      else if c = CHR ''#'' then (if m = AtStart then lex InComment cs else None)
      else if c = CHR '';'' then apart [Op '';''] (lex AtStart cs)
      else if c = CHR ''>'' then
        (if m = InWord then None
         else if take 1 cs = ''>'' then apart [Op ''>>''] (lex AtStart (drop 1 cs))
         else apart [Op ''>''] (lex AtStart cs))
      else if c = CHR ''<'' then
        (if m = InWord then None else apart [Op ''<''] (lex AtStart cs))
      else if c = sq then
        (case scan_sq cs of
           None \<Rightarrow> None
         | Some (q, r) \<Rightarrow> glue [Quoted q] (lex InWord r))
      else if c = dq then
        (case scan_dq cs of
           None \<Rightarrow> None
         | Some (segs, r) \<Rightarrow> glue (Quoted [] # segs) (lex InWord r))
      else if c = CHR ''$'' then
        (if take 1 cs = ''?'' then glue [Status] (lex InWord (drop 1 cs)) else None)
      else if c = CHR ''['' \<or> c = CHR '']'' then
        (if m = AtStart \<and> at_break cs then glue [Bare c] (lex InWord cs) else None)
      else if bare_ok c then glue [Bare c] (lex InWord cs)
      else None)"
  by pat_completeness auto

termination
  by (relation "measure (\<lambda>(m, s). length s)")
    (auto dest: scan_sq_length scan_dq_length)

subsubsection \<open>Commands\<close>

text \<open>
  The commands of a script are its lines. A line that begins with a reserved word is
  \<open>if ... ; then\<close> with a simple command as its condition, \<open>else\<close> or \<open>fi\<close>;
  any other use of a reserved word is outside the fragment.
\<close>

fun commands :: "tok list \<Rightarrow> tok list list" where
  "commands [] = [[]]"
| "commands (t # ts) =
     (if t = Nl then [] # commands ts
      else (case commands ts of [] \<Rightarrow> [[t]] | c # cs \<Rightarrow> (t # c) # cs))"

fun bare :: "seg list \<Rightarrow> string option" where
  "bare [] = Some []"
| "bare (Bare c # w) = (case bare w of None \<Rightarrow> None | Some k \<Rightarrow> Some (c # k))"
| "bare (x # w) = None"

definition reserved :: "string list" where
  "reserved =
     [''if'', ''then'', ''else'', ''elif'', ''fi'', ''do'', ''done'', ''case'', ''esac'',
      ''while'', ''until'', ''for'', ''in'', ''function'', ''select'', ''time'']"

datatype stmt = Empty | If "tok list" | Else | Fi | Simple "tok list"

definition keyword :: "tok list \<Rightarrow> string option" where
  "keyword ts =
     (case ts of
        Wd w # rest \<Rightarrow> (case bare w of Some k \<Rightarrow> if k \<in> set reserved then Some k else None
                                     | None \<Rightarrow> None)
      | _ \<Rightarrow> None)"

definition classify :: "tok list \<Rightarrow> stmt option" where
  "classify ts =
     (if ts = [] then Some Empty
      else
        (case keyword ts of
           None \<Rightarrow> Some (Simple ts)
         | Some k \<Rightarrow>
             if k = ''if'' then
               (let cond = butlast (butlast (tl ts)) in
                if tl ts = cond @ [Op '';'', Wd (map Bare ''then'')] \<and> cond \<noteq> []
                   \<and> keyword cond = None
                then Some (If cond) else None)
             else if k = ''else'' \<and> tl ts = [] then Some Else
             else if k = ''fi'' \<and> tl ts = [] then Some Fi
             else None))"

subsubsection \<open>Arithmetic\<close>

text \<open>
  Decimal numbers as the shell reads them (a leading zero would make the number octal and
  is left out), and \<open>$((...))\<close> over sums and differences of numbers and of variables
  that hold a number. An unset or empty variable counts as 0. The shell computes with
  signed 64-bit integers; a value outside their range is outside the fragment.
\<close>

definition digit_val :: "char \<Rightarrow> nat option" where
  "digit_val c =
     map_of [(CHR ''0'', 0), (CHR ''1'', 1), (CHR ''2'', 2), (CHR ''3'', 3), (CHR ''4'', 4),
             (CHR ''5'', 5), (CHR ''6'', 6), (CHR ''7'', 7), (CHR ''8'', 8), (CHR ''9'', 9)] c"

fun parse_digits :: "nat \<Rightarrow> string \<Rightarrow> nat option" where
  "parse_digits acc [] = Some acc"
| "parse_digits acc (c # cs) =
     (case digit_val c of None \<Rightarrow> None | Some d \<Rightarrow> parse_digits (acc * 10 + d) cs)"

definition parse_nat :: "string \<Rightarrow> nat option" where
  "parse_nat s =
     (if s = [] \<or> (take 1 s = ''0'' \<and> s \<noteq> ''0'') then None else parse_digits 0 s)"

definition parse_int :: "string \<Rightarrow> int option" where
  "parse_int s =
     (if take 1 s = ''-'' then map_option (\<lambda>n. - int n) (parse_nat (drop 1 s))
      else map_option int (parse_nat s))"

definition ranged :: "int option \<Rightarrow> int option" where
  "ranged v =
     (case v of
        None \<Rightarrow> None
      | Some i \<Rightarrow> if - (2 ^ 63) \<le> i \<and> i < 2 ^ 63 then Some i else None)"

fun split_on :: "char \<Rightarrow> string \<Rightarrow> string list" where
  "split_on x [] = [[]]"
| "split_on x (c # cs) =
     (if c = x then [] # split_on x cs
      else (case split_on x cs of [] \<Rightarrow> [[c]] | w # ws \<Rightarrow> (c # w) # ws))"

definition is_name :: "string \<Rightarrow> bool" where
  "is_name w = (w \<noteq> [] \<and> is_alpha (hd w) \<and> list_all name_char w)"

definition operand :: "(string \<Rightarrow> string option) \<Rightarrow> string \<Rightarrow> int option" where
  "operand vs w =
     (if is_name w then
        (case vs w of
           None \<Rightarrow> Some 0
         | Some v \<Rightarrow> if v = [] then Some 0 else ranged (parse_int v))
      else ranged (parse_int w))"

fun arith_rest :: "(string \<Rightarrow> string option) \<Rightarrow> int \<Rightarrow> string list \<Rightarrow> int option" where
  "arith_rest vs acc [] = Some acc"
| "arith_rest vs acc [x] = None"
| "arith_rest vs acc (x # w # ws) =
     (case operand vs w of
        None \<Rightarrow> None
      | Some v \<Rightarrow>
          if x = ''+'' then
            (case ranged (Some (acc + v)) of None \<Rightarrow> None | Some n \<Rightarrow> arith_rest vs n ws)
          else if x = ''-'' then
            (case ranged (Some (acc - v)) of None \<Rightarrow> None | Some n \<Rightarrow> arith_rest vs n ws)
          else None)"

definition arith :: "(string \<Rightarrow> string option) \<Rightarrow> string \<Rightarrow> int option" where
  "arith vs e =
     (case filter (\<lambda>w. w \<noteq> []) (split_on (CHR '' '') e) of
        [] \<Rightarrow> None
      | w # ws \<Rightarrow> (case operand vs w of None \<Rightarrow> None | Some v \<Rightarrow> arith_rest vs v ws))"

subsubsection \<open>The remote host\<close>

text \<open>
  The file system of the host, as far as the scripts touch it. \<open>canon\<close> maps a path to
  the file it names, so that two paths (a link and its target, \<open>a/../b\<close> and \<open>b\<close>)
  can name the same file. A name leads to a regular file with its content, to nothing, to
  the null device, or to something else (a directory, a pipe, another device), which the
  model does not follow. \<open>refuses\<close> tells for which paths writing fails (the file
  cannot be opened: a missing or read-only directory, a permission; or the disk is full),
  \<open>unreadable\<close> for which paths the file cannot be opened for reading;
  \<open>mkdir_status\<close> is the exit status of \<open>mkdir -p\<close> on a directory and \<open>environ\<close>
  the environment of a new session.
\<close>

datatype entry = Regular string | Absent | NullDevice | Special

record remote =
  canon :: "string \<Rightarrow> string"
  table :: "string \<Rightarrow> entry"
  refuses :: "string \<Rightarrow> bool"
  unreadable :: "string \<Rightarrow> bool"
  mkdir_status :: "string \<Rightarrow> int"
  environ :: "string \<Rightarrow> string option"

definition node :: "remote \<Rightarrow> string \<Rightarrow> entry" where
  "node h p = table h (canon h p)"

text \<open>
  A redirection of standard output to a path, for a command that writes \<open>text\<close>: the
  host afterwards and the exit status. When the writing fails the file is left as it was
  and the status is 1. \<open>>>\<close> appends, \<open>>\<close> truncates first; a file that does not
  exist is created; what is written to the null device is lost.
\<close>

definition write_file :: "bool \<Rightarrow> string \<Rightarrow> string \<Rightarrow> remote \<Rightarrow> (remote \<times> int) option" where
  "write_file appending p text h =
     (if refuses h p then Some (h, 1)
      else
        (case node h p of
           Regular old \<Rightarrow>
             Some (h\<lparr>table := (table h)(canon h p :=
                       Regular ((if appending then old else []) @ text))\<rparr>, 0)
         | Absent \<Rightarrow> Some (h\<lparr>table := (table h)(canon h p := Regular text)\<rparr>, 0)
         | NullDevice \<Rightarrow> Some (h, 0)
         | Special \<Rightarrow> None))"

text \<open>
  A redirection of standard input from a path: the content read, \<open>Some None\<close> when the
  file cannot be opened. \<open>fileContent\<close> is the content of the file a path names, for the
  statements about it.
\<close>

definition read_file :: "string \<Rightarrow> remote \<Rightarrow> string option option" where
  "read_file p h =
     (if unreadable h p then Some None
      else
        (case node h p of
           Regular text \<Rightarrow> Some (Some text)
         | Absent \<Rightarrow> Some None
         | NullDevice \<Rightarrow> Some (Some [])
         | Special \<Rightarrow> None))"

definition fileContent :: "remote \<Rightarrow> string \<Rightarrow> string option" where
  "fileContent h p =
     (case node h p of
        Regular text \<Rightarrow> Some text
      | Absent \<Rightarrow> None
      | NullDevice \<Rightarrow> Some []
      | Special \<Rightarrow> None)"

text \<open>
  \<open>dirname\<close> (POSIX): drop the trailing slashes, the last component and the slashes
  before it; \<open>.\<close> for a path without a slash and \<open>/\<close> for one made of slashes.
\<close>

definition dirname :: "string \<Rightarrow> string" where
  "dirname p =
     (let a = rev (dropWhile (\<lambda>c. c = CHR ''/'') (rev p));
          b = rev (dropWhile (\<lambda>c. c \<noteq> CHR ''/'') (rev a));
          c = rev (dropWhile (\<lambda>c. c = CHR ''/'') (rev b))
      in if p = [] then ''.''
         else if a = [] then ''/''
         else if b = [] then ''.''
         else if c = [] then ''/''
         else c)"

subsubsection \<open>Running a script\<close>

text \<open>
  The state of a shell: its variables, the exit status of the last command, what it has
  written to standard output, and the host. A session starts from the environment.
\<close>

record shell =
  variables :: "string \<Rightarrow> string option"
  status :: int
  stdout :: string
  machine :: remote

definition login :: "remote \<Rightarrow> shell" where
  "login h = \<lparr>variables = environ h, status = 0, stdout = [], machine = h\<rparr>"

text \<open>
  The expansion of a segment into text. Command substitutions are expanded by
  \<open>substitute\<close> below, one level deep.
\<close>

fun expand_plain :: "shell \<Rightarrow> seg \<Rightarrow> string option" where
  "expand_plain s (Bare c) = Some [c]"
| "expand_plain s (Quoted q) = Some q"
| "expand_plain s (Param n) = Some (case variables s n of None \<Rightarrow> [] | Some v \<Rightarrow> v)"
| "expand_plain s Status = Some (show_int (status s))"
| "expand_plain s (Arith e) = map_option show_int (arith (variables s) e)"
| "expand_plain s (CmdSub t) = None"

datatype arg = Str string | Redirect string

fun expand_toks :: "(seg \<Rightarrow> string option) \<Rightarrow> tok list \<Rightarrow> arg list option" where
  "expand_toks f [] = Some []"
| "expand_toks f (Wd w # ts) =
     (case those (map f w) of
        None \<Rightarrow> None
      | Some parts \<Rightarrow>
          (case expand_toks f ts of None \<Rightarrow> None | Some as \<Rightarrow> Some (Str (concat parts) # as)))"
| "expand_toks f (Op x # ts) =
     (case expand_toks f ts of None \<Rightarrow> None | Some as \<Rightarrow> Some (Redirect x # as))"
| "expand_toks f (Nl # ts) = None"

text \<open>
  A command substitution runs its command and takes what it printed without the trailing
  newlines. Two commands are known: \<open>dirname p\<close>, and \<open>wc -c < p\<close> or \<open>wc -l < p\<close>,
  which print the number of bytes or of newlines of the file, and nothing when the file
  cannot be opened. An operand that begins with a dash would be read as an option and is
  left out.
\<close>

definition strip_newlines :: "string \<Rightarrow> string" where
  "strip_newlines s = rev (dropWhile (\<lambda>c. c = nl) (rev s))"

definition substitute :: "shell \<Rightarrow> string \<Rightarrow> string option" where
  "substitute s t =
     (case lex AtStart t of
        None \<Rightarrow> None
      | Some (ts, joined) \<Rightarrow>
          (case expand_toks (expand_plain s) ts of
             Some [Str c, Str p] \<Rightarrow>
               if c = ''dirname'' \<and> take 1 p \<noteq> ''-''
               then Some (strip_newlines (dirname p @ [nl])) else None
           | Some [Str c, Str x, Redirect r, Str p] \<Rightarrow>
               if c = ''wc'' \<and> r = ''<'' \<and> (x = ''-c'' \<or> x = ''-l'') then
                 (case read_file p (machine s) of
                    None \<Rightarrow> None
                  | Some None \<Rightarrow> Some []
                  | Some (Some text) \<Rightarrow>
                      Some (show_nat (if x = ''-c'' then length text else count_list text nl)))
               else None
           | _ \<Rightarrow> None))"

definition expand :: "shell \<Rightarrow> seg \<Rightarrow> string option" where
  "expand s x = (case x of CmdSub t \<Rightarrow> substitute s t | _ \<Rightarrow> expand_plain s x)"

datatype outcome = Next shell | Exit shell int

text \<open>
  \<open>echo\<close> prints its arguments, separated by blanks, and a newline. Whether it rewrites
  backslashes and takes a first argument with a dash as an option depends on the shell;
  both are left out. With \<open>> p\<close> or \<open>>> p\<close> as its last two words the text goes to
  the file and the status is that of the redirection.
\<close>

fun strs :: "arg list \<Rightarrow> string list option" where
  "strs [] = Some []"
| "strs (Str w # as) = (case strs as of None \<Rightarrow> None | Some ws \<Rightarrow> Some (w # ws))"
| "strs (Redirect r # as) = None"

definition echo_text :: "string list \<Rightarrow> string option" where
  "echo_text ws =
     (if list_all (\<lambda>w. bs \<notin> set w) ws \<and> take 1 (concat (take 1 ws)) \<noteq> ''-''
      then Some (join_with '' '' ws @ [nl]) else None)"

definition exec_echo :: "shell \<Rightarrow> arg list \<Rightarrow> outcome option" where
  "exec_echo s as =
     (case strs as of
        Some ws \<Rightarrow>
          (case echo_text ws of
             None \<Rightarrow> None
           | Some text \<Rightarrow> Some (Next (s\<lparr>stdout := stdout s @ text, status := 0\<rparr>)))
      | None \<Rightarrow>
          (case (strs (butlast (butlast as)), drop (length as - 2) as) of
             (Some ws, [Redirect r, Str p]) \<Rightarrow>
               if r = ''>>'' \<or> r = ''>'' then
                 (case echo_text ws of
                    None \<Rightarrow> None
                  | Some text \<Rightarrow>
                      (case write_file (r = ''>>'') p text (machine s) of
                         None \<Rightarrow> None
                       | Some (h, st) \<Rightarrow> Some (Next (s\<lparr>machine := h, status := st\<rparr>))))
               else None
           | _ \<Rightarrow> None))"

text \<open>
  \<open>[ x -eq y ]\<close> on two numbers: status 0 when they are equal, 1 otherwise.
\<close>

definition exec_test :: "shell \<Rightarrow> arg list \<Rightarrow> outcome option" where
  "exec_test s as =
     (case as of
        [Str x, Str cmp, Str y, Str close] \<Rightarrow>
          if cmp = ''-eq'' \<and> close = '']'' then
            (case (parse_int x, parse_int y) of
               (Some i, Some j) \<Rightarrow> Some (Next (s\<lparr>status := (if i = j then 0 else 1)\<rparr>))
             | _ \<Rightarrow> None)
          else None
      | _ \<Rightarrow> None)"

text \<open>
  A simple command: the words are expanded, the first is the name of the command.
  \<open>mkdir -p d\<close> only sets the status (the directories of the host are not modelled:
  whether a file can then be opened is what \<open>refuses\<close> tells); \<open>exit n\<close> ends the
  script with the code \<open>n\<close>.
\<close>

definition exec_simple :: "shell \<Rightarrow> tok list \<Rightarrow> outcome option" where
  "exec_simple s ts =
     (case expand_toks (expand s) ts of
        Some (Str c # as) \<Rightarrow>
          if c = ''echo'' then exec_echo s as
          else if c = ''['' then exec_test s as
          else if c = ''mkdir'' then
            (case as of
               [Str x, Str d] \<Rightarrow>
                 if x = ''-p'' \<and> take 1 d \<noteq> ''-''
                 then Some (Next (s\<lparr>status := mkdir_status (machine s) d\<rparr>)) else None
             | _ \<Rightarrow> None)
          else if c = ''exit'' then
            (case as of
               [Str n] \<Rightarrow>
                 (case parse_nat n of
                    None \<Rightarrow> None
                  | Some k \<Rightarrow> if k < 256 then Some (Exit s (int k)) else None)
             | _ \<Rightarrow> None)
          else None
      | _ \<Rightarrow> None)"

text \<open>
  Running the commands in order. The control state tells whether the commands are those
  of the script itself, of the \<open>then\<close> part or of the \<open>else\<close> part of an \<open>if\<close>, and for
  these whether the condition held; an \<open>if\<close> inside an \<open>if\<close> is outside the fragment.
  An \<open>if\<close> none of whose parts ran has status 0. The result is the final state and
  the exit code of the script: the argument of \<open>exit\<close>, or the status of the last command.
\<close>

datatype ctl = Top | InThen bool | InElse bool

fun active :: "ctl \<Rightarrow> bool" where
  "active Top = True"
| "active (InThen b) = b"
| "active (InElse b) = (\<not> b)"

fun run :: "ctl \<Rightarrow> tok list list \<Rightarrow> shell \<Rightarrow> (shell \<times> int) option" where
  "run k [] s = (if k = Top then Some (s, status s) else None)"
| "run k (c # cs) s =
     (case classify c of
        None \<Rightarrow> None
      | Some Empty \<Rightarrow> run k cs s
      | Some (If cond) \<Rightarrow>
          (if k = Top then
             (case exec_simple s cond of
                Some (Next s') \<Rightarrow> run (InThen (status s' = 0)) cs s'
              | _ \<Rightarrow> None)
           else None)
      | Some Else \<Rightarrow> (case k of InThen b \<Rightarrow> run (InElse b) cs s | _ \<Rightarrow> None)
      | Some Fi \<Rightarrow>
          (case k of
             Top \<Rightarrow> None
           | InThen b \<Rightarrow> run Top cs (if b then s else s\<lparr>status := 0\<rparr>)
           | InElse b \<Rightarrow> run Top cs s)
      | Some (Simple ts) \<Rightarrow>
          (if active k then
             (case exec_simple s ts of
                None \<Rightarrow> None
              | Some (Next s') \<Rightarrow> run k cs s'
              | Some (Exit s' n) \<Rightarrow> Some (s', n))
           else run k cs s))"

text \<open>
  \<open>sh script s\<close>: the shell in the state \<open>s\<close> is given the text \<open>script\<close>.
\<close>

definition sh :: "string \<Rightarrow> shell \<Rightarrow> (shell \<times> int) option" where
  "sh script s =
     (case lex AtStart script of
        None \<Rightarrow> None
      | Some (ts, joined) \<Rightarrow> run Top (commands ts) s)"

subsubsection \<open>The scripts of the tools in the shell\<close>




text \<open>
The characters of a decimal number with its sign.
\<close>

definition numeric :: "char \<Rightarrow> bool" where
  "numeric c = (is_digit c \<or> c = CHR ''-'')"

text \<open>
  A text that the shell takes as it stands between double quotes: it has no double quote,
  dollar sign, backquote, backslash or NUL.
\<close>

definition dq_literal :: "string \<Rightarrow> bool" where
  "dq_literal s =
     list_all (\<lambda>c. c \<noteq> dq \<and> c \<noteq> CHR ''$'' \<and> c \<noteq> CHR 0x60 \<and> c \<noteq> bs \<and> c \<noteq> CHR 0x00) s"



subsection \<open>Key-exchange negotiation\<close>

text \<open>
  What ssh2 does with \<open>algorithms.kex\<close> when it is an array: it offers exactly that
  list, the handshake settles on the first algorithm of the list that the server offers
  too (RFC 4253, 7.1), and with none in common the connection emits \<open>error\<close>.
\<close>

definition negotiateKex :: "string list \<Rightarrow> string list \<Rightarrow> string option" where
  "negotiateKex client server = List.find (\<lambda>a. a \<in> set server) client"

definition handshake ::
  "string list \<Rightarrow> string \<Rightarrow> (config \<Rightarrow> string \<Rightarrow> session) \<Rightarrow> config \<Rightarrow> string \<Rightarrow> session" where
  "handshake server_kex err established cfg cmd =
     (case negotiateKex (kex (algorithms cfg)) server_kex of
        None \<Rightarrow> ConnError err
      | Some chosen \<Rightarrow> established cfg cmd)"

definition is_ecdh :: "string \<Rightarrow> bool" where
  "is_ecdh a = (take 10 a = ''ecdh-sha2-'')"

definition is_dh_sha256 :: "string \<Rightarrow> bool" where
  "is_dh_sha256 a = (take 15 a = ''diffie-hellman-'' \<and> drop (length a - 7) a = ''-sha256'')"

section \<open>An example environment\<close>

text \<open>
  A host on which only the Ed25519 identity file exists, and a server that answers every
  command with one line and no exit code. \<open>trim\<close> strips ASCII white space, and a
  plain rendering without indentation or escapes stands in for \<open>JSON.stringify\<close>.
\<close>

definition is_space :: "char \<Rightarrow> bool" where
  "is_space c = (c = CHR '' '' \<or> c = CHR 0x09 \<or> c = nl \<or> c = CHR 0x0B \<or> c = CHR 0x0C \<or> c = CHR 0x0D)"

definition trimAscii :: "string \<Rightarrow> string" where
  "trimAscii s = rev (dropWhile is_space (rev (dropWhile is_space s)))"

fun showJson :: "json \<Rightarrow> string" where
  "showJson JNull = ''null''"
| "showJson (JBool b) = (if b then ''true'' else ''false'')"
| "showJson (JNum n) = show_int n"
| "showJson (JStr s) = [dq] @ s @ [dq]"

definition showObject :: "json_object \<Rightarrow> string" where
  "showObject kvs =
     ''{'' @ join_with '','' (map (\<lambda>kv. [dq] @ fst kv @ [dq] @ '':'' @ showJson (snd kv)) kvs) @ ''}''"

definition exampleRuntime :: runtime where
  "exampleRuntime =
     \<lparr>homedir = ''/home/dev'',
      path_join = join_with ''/'',
      readFileSync = (\<lambda>p. if p = ''/home/dev/.ssh/id_ed25519'' then Some ''KEY'' else None),
      trim = trimAscii,
      connect = (\<lambda>cfg cmd. Closed [''up 3 '', ''days'' @ [nl]] [] Undefined),
      env_SSH_PRIVATE_KEY = None,
      JSON_stringify = showObject,
      McpError_message = (\<lambda>code m. m)\<rparr>"

definition noArgs :: args where
  "noArgs =
     \<lparr>host = None, user = None, command = None, privateKeyPath = None, port = None,
      filePath = None, oldText = None, newText = None, expectedReplacements = None,
      startLine = None, endLine = None, maxLines = None, path = None, pattern = None,
      filePattern = None, ignoreCase = None, maxResults = None, contextLines = None,
      content = None, mode = None\<rparr>"

definition exampleArgs :: args where
  "exampleArgs = noArgs\<lparr>host := Some ''build01'', user := Some ''dev'', command := Some ''uptime''\<rparr>"

text \<open>The same host talking to a server that offers only a SHA-1 key exchange.\<close>

definition legacyServerRuntime :: runtime where
  "legacyServerRuntime =
     exampleRuntime\<lparr>connect :=
       handshake [''diffie-hellman-group1-sha1''] ''no matching key exchange algorithm''
         (\<lambda>cfg cmd. Closed [''up 3 days'' @ [nl]] [] (Num 0))\<rparr>"

definition exampleOptions :: exec_options where
  "exampleOptions =
     \<lparr>opt_host = ''build01'', opt_user = ''dev'', opt_command = ''uptime'',
      opt_privateKeyPath = None, opt_port = Some 22\<rparr>"

text \<open>
  A remote host where \<open>/etc/motd\<close> is a file that the user may not write, every other
  path but the null device names nothing yet, and the user is \<open>dev\<close>; and the arguments
  of a call of write-chunk on a path.
\<close>

definition exampleHost :: remote where
  "exampleHost =
     \<lparr>canon = (\<lambda>p. p),
      table = (\<lambda>p. if p = ''/dev/null'' then NullDevice
                    else if p = ''/etc/motd'' then Regular (''hello'' @ [nl]) else Absent),
      refuses = (\<lambda>p. p = ''/etc/motd''),
      unreadable = (\<lambda>p. False),
      mkdir_status = (\<lambda>d. 0),
      environ = (\<lambda>n. if n = ''USER'' then Some ''dev'' else None)\<rparr>"


section \<open>Properties\<close>

declare show_nat.simps [simp del]

subsection \<open>Auxiliary facts\<close>

lemma escapeBrackets_append: "escapeBrackets (xs @ ys) = escapeBrackets xs @ escapeBrackets ys"
  by (induction xs) simp_all

lemma escapeSlashes_append: "escapeSlashes (xs @ ys) = escapeSlashes xs @ escapeSlashes ys"
  by (induction xs) simp_all

text \<open>Every slash of the text comes out as backslash, backslash, slash.\<close>

lemma escaped_slash:
  "escaped (xs @ CHR ''/'' # ys) = escaped xs @ [bs, bs, CHR ''/''] @ escaped ys"
  by (simp add: escaped_def escapeBrackets_append escapeSlashes_append)

text \<open>An empty key path counts as none: the default paths are searched.\<close>

lemma empty_key_path_is_none: "getPrivateKey rt c (Some []) = getPrivateKey rt c None"
  by (simp add: getPrivateKey_def candidatePaths_def)

text \<open>No name outside the five reaches a tool, and none leaves with \<open>MethodNotFound\<close>.\<close>

lemma unknown_tool_rethrown:
  assumes "name \<noteq> ''remote-ssh''" and "name \<noteq> ''ssh-edit-block''"
    and "name \<noteq> ''ssh-read-lines''" and "name \<noteq> ''ssh-search-code''"
    and "name \<noteq> ''ssh-write-chunk''"
  shows "callTool rt name a =
           ([], Inl (McpError InternalError
              (''SSH operation failed: '' @
               McpError_message rt MethodNotFound (''Unknown tool: '' @ name))))"
  using assms by (simp add: callTool_def dispatch_def)

lemma negotiateKex_none:
  "list_all (\<lambda>a. a \<notin> set server) client \<Longrightarrow> negotiateKex client server = None"
  by (induction client) (simp_all add: negotiateKex_def)

lemma config_kex: "kex (algorithms (connectionConfig opts key)) = kexAllowList"
  by (simp add: connectionConfig_def)

subsection \<open>ssh-edit-block: escaping\<close>

text \<open>
  C1. The claim: for an \<open>oldText\<close> with \<open>/\<close> or \<open>]\<close>, the characters \<open>[\<close>,
  \<open>]\<close> and \<open>/\<close> are backslash-escaped before the texts go into the \<open>sed\<close>
  substitution, so that it matches the search text literally. The code escapes the slash
  twice: the first replacement puts a backslash before it, the second puts another one
  before the same slash. For \<open>oldText = newText = a/b\<close> the substitution command is
  \<open>s/a\\/b/a\\/b/g\<close>, in which the two backslashes stand for one literal backslash and
  the slash after them ends the pattern.
\<close>

theorem slash_escaped_twice:
  "escaped ''a/b'' = [CHR ''a'', bs, bs, CHR ''/'', CHR ''b'']
   \<and> sedLine ''/srv/app.conf'' ''a/b'' ''a/b'' =
       ''      sed -i '' @ [sq] @ ''s/a'' @ [bs, bs] @ ''/b/a'' @ [bs, bs] @ ''/b/g'' @ [sq] @
       '' '' @ [dq] @ ''/srv/app.conf'' @ [dq]"
  by (simp add: escaped_def sedLine_def)

subsection \<open>Key resolution\<close>

text \<open>
  C3. With an explicit key path (a non-empty string; \<open>getPrivateKey\<close> tests the
  argument for truthiness) the only path read is that one, and when it cannot be read
  the error message names that path alone. With no explicit path the three default
  paths \<open>id_rsa\<close>, \<open>id_ed25519\<close>, \<open>id_ecdsa\<close> under \<open>.ssh\<close> in the home directory
  are read in this order, the content of the first one that can be read is returned and
  no later one is read, and when none can be read the error message lists all three.
\<close>

theorem key_resolution:
  "(p \<noteq> [] \<longrightarrow>
      getPrivateKey rt c (Some p) =
        (case readFileSync rt p of
           Some k \<Rightarrow> ([p], Inr k)
         | None \<Rightarrow>
             ([p], Inl (''No private key found. Tried: '' @ p @ [nl] @
                ''Please provide privateKeyPath or set SSH_PRIVATE_KEY environment variable''))))
   \<and> getPrivateKey rt (new_SSHClient rt) None =
       (let rsa = path_join rt [homedir rt, ''.ssh'', ''id_rsa''];
            ed25519 = path_join rt [homedir rt, ''.ssh'', ''id_ed25519''];
            ecdsa = path_join rt [homedir rt, ''.ssh'', ''id_ecdsa'']
        in case readFileSync rt rsa of
             Some k \<Rightarrow> ([rsa], Inr k)
           | None \<Rightarrow>
               (case readFileSync rt ed25519 of
                  Some k \<Rightarrow> ([rsa, ed25519], Inr k)
                | None \<Rightarrow>
                    (case readFileSync rt ecdsa of
                       Some k \<Rightarrow> ([rsa, ed25519, ecdsa], Inr k)
                     | None \<Rightarrow>
                         ([rsa, ed25519, ecdsa],
                          Inl (''No private key found. Tried: '' @ rsa @ '', '' @ ed25519 @
                               '', '' @ ecdsa @ [nl] @
                               ''Please provide privateKeyPath or set SSH_PRIVATE_KEY environment variable'')))))"
  by (simp add: getPrivateKey_def candidatePaths_def noKeyMessage_def new_SSHClient_def Let_def
      split: option.splits)

text \<open>
  In the example environment an explicit path that does not exist fails with that path
  alone, and without a path the search stops at the Ed25519 file.
\<close>

theorem key_resolution_witness:
  "''/keys/deploy'' \<noteq> []
   \<and> getPrivateKey exampleRuntime (new_SSHClient exampleRuntime) (Some ''/keys/deploy'') =
       ([''/keys/deploy''],
        Inl (''No private key found. Tried: /keys/deploy'' @ [nl] @
             ''Please provide privateKeyPath or set SSH_PRIVATE_KEY environment variable''))
   \<and> getPrivateKey exampleRuntime (new_SSHClient exampleRuntime) None =
       ([''/home/dev/.ssh/id_rsa'', ''/home/dev/.ssh/id_ed25519''], Inr ''KEY'')"
  using key_resolution [of "''/keys/deploy''" exampleRuntime "new_SSHClient exampleRuntime"]
  by (simp add: exampleRuntime_def)

subsection \<open>remote-ssh: the envelope\<close>

text \<open>
  C4. When \<open>host\<close>, \<open>user\<close> and \<open>command\<close> are present (non-empty strings, so that
  they pass the handler's check), the handler of \<open>remote-ssh\<close> returns a response whose
  text is the JSON of an object with exactly the fields \<open>success\<close>, \<open>output\<close>,
  \<open>error\<close> (a text or null), \<open>exitCode\<close> (0 when the result has no exit code),
  \<open>host\<close> and \<open>command\<close>, both when \<open>executeCommand\<close> resolves and when it rejects
  (key resolution, connection or execution failed); it throws nothing, so the call
  handler passes the response on unchanged.
\<close>

theorem remote_ssh_envelope:
  assumes "host a = Some h" and "user a = Some u" and "command a = Some c"
    and "h \<noteq> []" and "u \<noteq> []" and "c \<noteq> []"
  shows "(case executeCommand rt (new_SSHClient rt) (options rt a h u c) of
            (fx, Inr result) \<Rightarrow>
              executeSSHCommand rt a =
                (fx, Inr (Content [Text (JSON_stringify rt
                   [(''success'', JBool True),
                    (''output'', JStr (res_output result)),
                    (''error'', (case res_error result of
                                   None \<Rightarrow> JNull
                                 | Some e \<Rightarrow> if e = [] then JNull else JStr e)),
                    (''exitCode'', JNum (case res_exitCode result of
                                           Num n \<Rightarrow> n | Null \<Rightarrow> 0 | Undefined \<Rightarrow> 0)),
                    (''host'', JStr h),
                    (''command'', JStr c)])]))
          | (fx, Inl msg) \<Rightarrow>
              executeSSHCommand rt a =
                (fx, Inr (Content [Text (JSON_stringify rt
                   [(''success'', JBool False),
                    (''output'', JStr []),
                    (''error'', JStr msg),
                    (''exitCode'', JNum 1),
                    (''host'', JStr h),
                    (''command'', JStr c)])])))
         \<and> callTool rt ''remote-ssh'' a = executeSSHCommand rt a"
proof -
  obtain fx r where ex: "executeCommand rt (new_SSHClient rt) (options rt a h u c) = (fx, r)"
    by (cases "executeCommand rt (new_SSHClient rt) (options rt a h u c)")
  have body: "executeSSHCommand rt a =
      (case r of
         Inr result \<Rightarrow> (fx, Inr (Content [Text (JSON_stringify rt (successEnvelope result h c))]))
       | Inl msg \<Rightarrow> (fx, Inr (Content [Text (JSON_stringify rt (failureEnvelope msg h c))])))"
    using assms ex by (simp add: executeSSHCommand_def split: sum.splits)
  have code: "code_or_zero k = (case k of Num n \<Rightarrow> n | Null \<Rightarrow> 0 | Undefined \<Rightarrow> 0)" for k
    by (cases k) simp_all
  have resolved: ?thesis if "r = Inr result" for result
    using that body ex
    by (simp add: successEnvelope_def truthy_def default_to_def code callTool_def dispatch_def
        split: option.splits)
  have rejected: ?thesis if "r = Inl msg" for msg
    using that body ex
    by (simp add: failureEnvelope_def callTool_def dispatch_def)
  show ?thesis
  proof (cases r)
    case (Inl msg)
    then show ?thesis by (rule rejected)
  next
    case (Inr result)
    then show ?thesis by (rule resolved)
  qed
qed

text \<open>
  In the example environment the session closes without an exit code, and the envelope
  reports 0.
\<close>

theorem remote_ssh_envelope_witness:
  "host exampleArgs = Some ''build01'' \<and> user exampleArgs = Some ''dev''
   \<and> command exampleArgs = Some ''uptime''
   \<and> executeSSHCommand exampleRuntime exampleArgs =
     ([ReadFile ''/home/dev/.ssh/id_rsa'', ReadFile ''/home/dev/.ssh/id_ed25519'',
       Connect (connectionConfig
         (options exampleRuntime exampleArgs ''build01'' ''dev'' ''uptime'') ''KEY''),
       Exec ''uptime''],
      Inr (Content [Text
        (''{'' @ [dq] @ ''success'' @ [dq] @ '':true,'' @
         [dq] @ ''output'' @ [dq] @ '':'' @ [dq] @ ''up 3 days'' @ [dq] @ '','' @
         [dq] @ ''error'' @ [dq] @ '':null,'' @
         [dq] @ ''exitCode'' @ [dq] @ '':0,'' @
         [dq] @ ''host'' @ [dq] @ '':'' @ [dq] @ ''build01'' @ [dq] @ '','' @
         [dq] @ ''command'' @ [dq] @ '':'' @ [dq] @ ''uptime'' @ [dq] @ ''}'')]))
   \<and> callTool exampleRuntime ''remote-ssh'' exampleArgs =
       executeSSHCommand exampleRuntime exampleArgs"
proof -
  have args: "host exampleArgs = Some ''build01''" "user exampleArgs = Some ''dev''"
    "command exampleArgs = Some ''uptime''"
    by (simp_all add: exampleArgs_def noArgs_def)
  have run: "executeCommand exampleRuntime (new_SSHClient exampleRuntime)
        (options exampleRuntime exampleArgs ''build01'' ''dev'' ''uptime'') =
      ([ReadFile ''/home/dev/.ssh/id_rsa'', ReadFile ''/home/dev/.ssh/id_ed25519'',
        Connect (connectionConfig
          (options exampleRuntime exampleArgs ''build01'' ''dev'' ''uptime'') ''KEY''),
        Exec ''uptime''],
       Inr \<lparr>res_output = ''up 3 days'', res_error = None, res_exitCode = Undefined\<rparr>)"
    by (simp add: executeCommand_def getPrivateKey_def candidatePaths_def new_SSHClient_def
        options_def js_or_def truthy_def exampleRuntime_def exampleArgs_def noArgs_def
        trimAscii_def is_space_def)
  have shown: "JSON_stringify exampleRuntime = showObject"
    by (simp add: exampleRuntime_def)
  show ?thesis
    using args remote_ssh_envelope [OF args, of exampleRuntime]
    by (simp add: run shown showObject_def show_int_def show_nat.simps)
qed

subsection \<open>The key-exchange allow-list\<close>

text \<open>
  C5, as the code has it. The configuration of every connection carries an explicit
  key-exchange allow-list of four algorithms: three elliptic-curve Diffie-Hellman
  variants (\<open>ecdh-sha2-nistp256\<close>, \<open>ecdh-sha2-nistp384\<close>, \<open>ecdh-sha2-nistp521\<close>)
  and one SHA-256 finite-field variant (\<open>diffie-hellman-group14-sha256\<close>). When the
  handshake is restricted to the list and the server offers none of the four, the
  connection fails: \<open>executeCommand\<close> rejects and no command is executed.
\<close>

theorem kex_allow_list:
  "kex (algorithms (connectionConfig opts key)) =
     [''ecdh-sha2-nistp256'', ''ecdh-sha2-nistp384'', ''ecdh-sha2-nistp521'',
      ''diffie-hellman-group14-sha256'']
   \<and> filter is_ecdh (kex (algorithms (connectionConfig opts key))) =
       [''ecdh-sha2-nistp256'', ''ecdh-sha2-nistp384'', ''ecdh-sha2-nistp521'']
   \<and> filter is_dh_sha256 (kex (algorithms (connectionConfig opts key))) =
       [''diffie-hellman-group14-sha256'']
   \<and> (connect rt = handshake server_kex err established
        \<and> ''ecdh-sha2-nistp256'' \<notin> set server_kex
        \<and> ''ecdh-sha2-nistp384'' \<notin> set server_kex
        \<and> ''ecdh-sha2-nistp521'' \<notin> set server_kex
        \<and> ''diffie-hellman-group14-sha256'' \<notin> set server_kex
        \<longrightarrow> (\<exists>fx msg. executeCommand rt c opts = (fx, Inl msg)
                      \<and> Exec (opt_command opts) \<notin> set fx))"
proof -
  have list: "kex (algorithms (connectionConfig opts key)) =
     [''ecdh-sha2-nistp256'', ''ecdh-sha2-nistp384'', ''ecdh-sha2-nistp521'',
      ''diffie-hellman-group14-sha256'']"
    by (simp add: connectionConfig_def kexAllowList_def)
  have ecdh: "filter is_ecdh (kex (algorithms (connectionConfig opts key))) =
       [''ecdh-sha2-nistp256'', ''ecdh-sha2-nistp384'', ''ecdh-sha2-nistp521'']"
    by (simp add: list is_ecdh_def)
  have dh: "filter is_dh_sha256 (kex (algorithms (connectionConfig opts key))) =
       [''diffie-hellman-group14-sha256'']"
    by (simp add: list is_dh_sha256_def)
  have reject: "\<exists>fx msg. executeCommand rt c opts = (fx, Inl msg)
                  \<and> Exec (opt_command opts) \<notin> set fx"
    if hs: "connect rt = handshake server_kex err established"
      and none: "list_all (\<lambda>a. a \<notin> set server_kex) kexAllowList"
  proof (cases "getPrivateKey rt c (opt_privateKeyPath opts)")
    case (Pair tried r)
    show ?thesis
    proof (cases r)
      case (Inl msg)
      with Pair show ?thesis by (auto simp: executeCommand_def)
    next
      case (Inr k)
      have "connect rt (connectionConfig opts k) (opt_command opts) = ConnError err"
        using negotiateKex_none [OF none] by (simp add: hs handshake_def config_kex)
      with Pair Inr show ?thesis by (auto simp: executeCommand_def Let_def)
    qed
  qed
  show ?thesis using list ecdh dh reject by (simp add: kexAllowList_def)
qed

text \<open>
  A server that offers only \<open>diffie-hellman-group1-sha1\<close>: the key is read, the
  connection is attempted with the four algorithms and fails, nothing is executed.
\<close>

theorem kex_allow_list_witness:
  "connect legacyServerRuntime =
     handshake [''diffie-hellman-group1-sha1''] ''no matching key exchange algorithm''
       (\<lambda>cfg cmd. Closed [''up 3 days'' @ [nl]] [] (Num 0))
   \<and> set (kex (algorithms (connectionConfig exampleOptions ''KEY''))) \<inter>
       set [''diffie-hellman-group1-sha1''] = {}
   \<and> executeCommand legacyServerRuntime (new_SSHClient legacyServerRuntime) exampleOptions =
     ([ReadFile ''/home/dev/.ssh/id_rsa'', ReadFile ''/home/dev/.ssh/id_ed25519'',
       Connect (connectionConfig exampleOptions ''KEY'')],
      Inl ''SSH connection failed: no matching key exchange algorithm'')
   \<and> length (kex (algorithms (connectionConfig exampleOptions ''KEY''))) = 4"
  using kex_allow_list [of exampleOptions "''KEY''" legacyServerRuntime
      "[''diffie-hellman-group1-sha1'']" "''no matching key exchange algorithm''"
      "\<lambda>cfg cmd. Closed [''up 3 days'' @ [nl]] [] (Num 0)"
      "new_SSHClient legacyServerRuntime"]
  by (simp add: legacyServerRuntime_def exampleRuntime_def exampleOptions_def executeCommand_def
      getPrivateKey_def candidatePaths_def new_SSHClient_def handshake_def negotiateKex_def
      connectionConfig_def kexAllowList_def)

text \<open>The list does not hold exactly two elliptic-curve variants: it holds three.\<close>

theorem two_ecdh_variants_counterexample:
  "length (filter is_ecdh (kex (algorithms (connectionConfig exampleOptions ''KEY'')))) \<noteq> 2"
  by (simp add: connectionConfig_def kexAllowList_def is_ecdh_def)

subsection \<open>ssh-read-lines: the header\<close>

text \<open>
  C6. The claim: the script prints a header with the file, its number of lines and the
  effective range of lines, and then the selected lines. The code never puts the end of
  the range into the script: the template escapes the dollar sign before
  \<open>{endLine || 'end'}\<close>, so the script's range line is
  \<open>echo "Reading lines 3-${endLine || 'end'} (max 2)"\<close> whatever \<open>endLine\<close> is, and a
  shell cannot expand that parameter. The scripts for \<open>startLine = 3\<close>,
  \<open>maxLines = 2\<close>, first without \<open>endLine\<close> and then with \<open>endLine = 4\<close>:
\<close>

theorem range_line_not_interpolated:
  "readLinesCommand ''/var/log/app.log'' 3 None 2 =
     join_with [nl]
       [[],
        ''      if [ ! -f '' @ [dq] @ ''/var/log/app.log'' @ [dq] @ '' ]; then'',
        ''        echo '' @ [dq] @ ''Error: File /var/log/app.log not found'' @ [dq],
        ''        exit 1'',
        ''      fi'',
        ''      '',
        ''      total_lines=$(wc -l < '' @ [dq] @ ''/var/log/app.log'' @ [dq] @ '')'',
        ''      echo '' @ [dq] @ ''File: /var/log/app.log (${total_lines} total lines)'' @ [dq],
        ''      echo '' @ [dq] @ ''Reading lines 3-${endLine || '' @ [sq] @ ''end'' @ [sq] @
          ''} (max 2)'' @ [dq],
        ''      echo '' @ [dq] @ ''--- Content ---'' @ [dq],
        ''      sed -n '' @ [sq] @ ''3,$p'' @ [sq] @ '' '' @ [dq] @ ''/var/log/app.log'' @ [dq] @
          '' | head -2'',
        ''    '']
   \<and> readLinesCommand ''/var/log/app.log'' 3 (Some 4) 2 =
     join_with [nl]
       [[],
        ''      if [ ! -f '' @ [dq] @ ''/var/log/app.log'' @ [dq] @ '' ]; then'',
        ''        echo '' @ [dq] @ ''Error: File /var/log/app.log not found'' @ [dq],
        ''        exit 1'',
        ''      fi'',
        ''      '',
        ''      total_lines=$(wc -l < '' @ [dq] @ ''/var/log/app.log'' @ [dq] @ '')'',
        ''      echo '' @ [dq] @ ''File: /var/log/app.log (${total_lines} total lines)'' @ [dq],
        ''      echo '' @ [dq] @ ''Reading lines 3-${endLine || '' @ [sq] @ ''end'' @ [sq] @
          ''} (max 2)'' @ [dq],
        ''      echo '' @ [dq] @ ''--- Content ---'' @ [dq],
        ''      sed -n '' @ [sq] @ ''3,4p'' @ [sq] @ '' '' @ [dq] @ ''/var/log/app.log'' @ [dq],
        ''    '']"
  by (simp add: readLinesCommand_def rangeLine_def readCommand_def show_int_def show_nat.simps)

subsection \<open>ssh-edit-block: a search text that is not in the file\<close>

text \<open>
  C7. The claim: when the file has no occurrence of the search text, the script exits
  with code 2, warns that the pattern was not found and leaves the file as it was. The
  count that decides the warning is taken with \<open>grep -F\<close>, which reads the search text
  literally, but the script runs its \<open>sed\<close> substitution whatever the count is, and
  \<open>sed\<close> reads the same text as a regular expression in which only \<open>[\<close>, \<open>]\<close> and
  \<open>/\<close> were escaped. For \<open>oldText = .\<close> and \<open>newText = x\<close> on a file without a dot
  the count is 0, the report is the warning with exit code 2, and the command that ran
  before it is \<open>sed -i 's/./x/g'\<close>, which replaces every character of the file
  (after which the file has a line with \<open>x\<close>: the second count is 1).
\<close>

theorem dot_not_escaped:
  "sedLine ''/srv/app.conf'' ''.'' ''x'' =
     ''      sed -i '' @ [sq] @ ''s/./x/g'' @ [sq] @ '' '' @ [dq] @ ''/srv/app.conf'' @ [dq]
   \<and> editBlockReport 0 1 1 =
     ([''Replacements made: 0'', ''Expected: 1'', ''Warning: Pattern not found in file''], 2)"
  by (simp add: escaped_def sedLine_def editBlockReport_def replacementsMade_def show_int_def
      show_nat.simps)

subsection \<open>The call handler: an unknown tool\<close>

text \<open>
  C8. The claim: a tool name outside the five is surfaced as a protocol-level error, an
  unknown-tool error with the code \<open>MethodNotFound\<close>. The handler throws that error
  inside its own \<open>try\<close>, and its \<open>catch\<close> throws a new \<open>McpError\<close> in its place: what
  reaches the dispatch layer has the code \<open>InternalError\<close> and carries the first
  error's message after "SSH operation failed: ".
\<close>

theorem unknown_tool_internal_error:
  "callTool rt ''ssh-delete-file'' a =
     ([], Inl (McpError InternalError
        (''SSH operation failed: '' @
         McpError_message rt MethodNotFound ''Unknown tool: ssh-delete-file'')))"
  by (simp add: callTool_def dispatch_def)

subsection \<open>Required arguments that are empty\<close>

text \<open>
  C10. The checks of required arguments test falsiness: write-chunk with the empty
  string as \<open>content\<close>, and edit-block with the empty string as \<open>oldText\<close> or as
  \<open>newText\<close>, throw "Missing required parameters" whatever the other arguments are,
  with no effect at all (no key file read, no connection); the call handler turns the
  error into its \<open>McpError\<close>. So these tools can neither write empty content nor
  replace a text by nothing.
\<close>

theorem empty_text_is_missing:
  "executeWriteChunk rt (a\<lparr>content := Some []\<rparr>) =
     ([], Inl (Error ''Missing required parameters: host, user, filePath, content''))
   \<and> executeEditBlock rt (a\<lparr>oldText := Some []\<rparr>) =
     ([], Inl (Error ''Missing required parameters: host, user, filePath, oldText, newText''))
   \<and> executeEditBlock rt (a\<lparr>newText := Some []\<rparr>) =
     ([], Inl (Error ''Missing required parameters: host, user, filePath, oldText, newText''))
   \<and> callTool rt ''ssh-write-chunk'' (a\<lparr>content := Some []\<rparr>) =
     ([], Inl (McpError InternalError
        ''SSH operation failed: Missing required parameters: host, user, filePath, content''))
   \<and> callTool rt ''ssh-edit-block'' (a\<lparr>oldText := Some []\<rparr>) =
     ([], Inl (McpError InternalError
        ''SSH operation failed: Missing required parameters: host, user, filePath, oldText, newText''))
   \<and> callTool rt ''ssh-edit-block'' (a\<lparr>newText := Some []\<rparr>) =
     ([], Inl (McpError InternalError
        ''SSH operation failed: Missing required parameters: host, user, filePath, oldText, newText''))"
proof -
  have w: "executeWriteChunk rt (a\<lparr>content := Some []\<rparr>) =
     ([], Inl (Error ''Missing required parameters: host, user, filePath, content''))"
    by (simp add: executeWriteChunk_def split: option.splits)
  have o: "executeEditBlock rt (a\<lparr>oldText := Some []\<rparr>) =
     ([], Inl (Error ''Missing required parameters: host, user, filePath, oldText, newText''))"
    by (simp add: executeEditBlock_def split: option.splits)
  have n: "executeEditBlock rt (a\<lparr>newText := Some []\<rparr>) =
     ([], Inl (Error ''Missing required parameters: host, user, filePath, oldText, newText''))"
    by (simp add: executeEditBlock_def split: option.splits)
  show ?thesis
    by (simp add: w o n callTool_def dispatch_def)
qed

subsection \<open>The shell fragment: auxiliary facts\<close>






lemma digit_is_digit: "k < 10 \<Longrightarrow> is_digit (''0123456789'' ! k)"
  unfolding is_digit_def by (rule nth_mem) simp

lemma show_nat_digits: "list_all is_digit (show_nat n)"
proof (induction n rule: show_nat.induct)
  case (1 n)
  show ?case
  proof (cases "n < 10")
    case True
    then show ?thesis by (subst show_nat.simps) (simp add: digit_is_digit)
  next
    case False
    with 1 have "list_all is_digit (show_nat (n div 10))" by simp
    moreover have "is_digit (''0123456789'' ! (n mod 10))" by (rule digit_is_digit) simp
    ultimately show ?thesis using False by (subst show_nat.simps) simp
  qed
qed

lemma show_int_numeric: "list_all numeric (show_int e)"
  using show_nat_digits [of "nat e"] show_nat_digits [of "nat (- e)"]
  by (auto simp: show_int_def numeric_def list_all_iff)




text \<open>
Literal text between double quotes, and numbers printed and read back.
\<close>

lemma lit_Nil [simp]: "lit [] segs = segs"
  by (simp add: lit_def)

lemma lit_Quoted [simp]: "q \<noteq> [] \<Longrightarrow> lit q (Quoted q' # segs) = Quoted (q @ q') # segs"
  by (simp add: lit_def)

lemma lit_end [simp]: "q \<noteq> [] \<Longrightarrow> lit q [] = [Quoted q]"
  by (simp add: lit_def)

lemma lit_lit [simp]: "lit a (lit b segs) = lit (a @ b) segs"
  by (auto simp: lit_def split: list.splits seg.splits)

lemma lit_cons_Some [simp]: "lit_cons q (Some (segs, r)) = Some (lit q segs, r)"
  by (simp add: lit_cons_def)

lemma lit_cons_None [simp]: "lit_cons q None = None"
  by (simp add: lit_cons_def)

lemma lit_cons_lit_cons [simp]: "lit_cons a (lit_cons b x) = lit_cons (a @ b) x"
  by (cases x) auto

lemma lit_cons_Nil [simp]: "lit_cons [] x = x"
  by (cases x) auto

lemma scan_dq_plain:
  assumes "c \<noteq> dq" "c \<noteq> CHR ''$''" "c \<noteq> CHR 0x60" "c \<noteq> bs" "c \<noteq> CHR 0x00"
  shows "scan_dq (c # cs) = lit_cons [c] (scan_dq cs)"
  using assms by (cases "scan_dq cs") (auto simp: dq_step_def)

lemma scan_dq_literal: "dq_literal q \<Longrightarrow> scan_dq (q @ r) = lit_cons q (scan_dq r)"
proof (induction q)
  case Nil
  show ?case by simp
next
  case (Cons c q)
  then have "scan_dq (c # (q @ r)) = lit_cons [c] (scan_dq (q @ r))"
    by (intro scan_dq_plain) (simp_all add: dq_literal_def)
  with Cons show ?case by (simp add: dq_literal_def del: scan_dq.simps)
qed



lemma below_ten:
  "k < 10 \<Longrightarrow> k = 0 \<or> k = 1 \<or> k = 2 \<or> k = 3 \<or> k = 4 \<or> k = 5 \<or> k = 6 \<or> k = 7 \<or> k = 8
     \<or> k = (9::nat)"
  by arith

lemma digit_val_digit: "k < 10 \<Longrightarrow> digit_val (''0123456789'' ! k) = Some k"
  by (drule below_ten) (auto simp: digit_val_def)

lemma digit_not_zero: "0 < k \<Longrightarrow> k < 10 \<Longrightarrow> ''0123456789'' ! k \<noteq> CHR ''0''"
  by (drule below_ten) auto

lemma parse_digits_append:
  "parse_digits acc (xs @ ys) =
     (case parse_digits acc xs of None \<Rightarrow> None | Some n \<Rightarrow> parse_digits n ys)"
  by (induction xs arbitrary: acc) (auto split: option.splits)

lemma parse_digits_show_nat: "parse_digits 0 (show_nat n) = Some n"
proof (induction n rule: show_nat.induct)
  case (1 n)
  show ?case
  proof (cases "n < 10")
    case True
    then show ?thesis by (subst show_nat.simps) (simp add: digit_val_digit)
  next
    case False
    with 1 have "parse_digits 0 (show_nat (n div 10)) = Some (n div 10)" by simp
    then show ?thesis
      using False by (subst show_nat.simps) (simp add: parse_digits_append digit_val_digit)
  qed
qed

lemma show_nat_nonempty: "show_nat n \<noteq> []"
  by (subst show_nat.simps) simp

lemma show_nat_zero: "show_nat 0 = ''0''"
  by (subst show_nat.simps) simp

lemma hd_show_nat: "0 < n \<Longrightarrow> hd (show_nat n) \<noteq> CHR ''0''"
proof (induction n rule: show_nat.induct)
  case (1 n)
  show ?case
  proof (cases "n < 10")
    case True
    have "show_nat n = [''0123456789'' ! n]"
      using True by (subst show_nat.simps) simp
    then show ?thesis using digit_not_zero [OF "1.prems" True] by simp
  next
    case False
    then have pos: "0 < n div 10" by simp
    have "show_nat n = show_nat (n div 10) @ [''0123456789'' ! (n mod 10)]"
      using False by (subst show_nat.simps) simp
    then have "hd (show_nat n) = hd (show_nat (n div 10))"
      by (simp add: show_nat_nonempty)
    then show ?thesis using "1.IH" [OF False pos] by simp
  qed
qed

lemma parse_nat_show_nat: "parse_nat (show_nat n) = Some n"
proof (cases "n = 0")
  case True
  then show ?thesis by (simp add: parse_nat_def show_nat_zero digit_val_def)
next
  case False
  then have h: "hd (show_nat n) \<noteq> CHR ''0''" by (simp add: hd_show_nat)
  obtain c cs where sn: "show_nat n = c # cs"
    using show_nat_nonempty [of n] by (cases "show_nat n") auto
  with h have "take 1 (show_nat n) \<noteq> ''0''" by simp
  then show ?thesis
    using parse_digits_show_nat [of n] by (simp add: parse_nat_def show_nat_nonempty)
qed

lemma parse_int_show_nat: "parse_int (show_nat n) = Some (int n)"
proof -
  obtain c cs where sn: "show_nat n = c # cs"
    using show_nat_nonempty [of n] by (cases "show_nat n") auto
  have "is_digit c" using show_nat_digits [of n] sn by simp
  then have "c \<noteq> CHR ''-''" by (auto simp: is_digit_def)
  then have "take 1 (show_nat n) \<noteq> ''-''" using sn by simp
  then show ?thesis by (simp add: parse_int_def parse_nat_show_nat)
qed

text \<open>
The report of the edit-block script, run by the shell.
\<close>

lemma glue_simps [simp]:
  "glue segs None = None"
  "glue segs (Some (Wd w # us, True)) = Some (Wd (segs @ w) # us, True)"
  "glue segs (Some (ts, False)) = Some (Wd segs # ts, True)"
  "glue segs (Some ([], j)) = Some ([Wd segs], True)"
  by (auto simp: glue_def split: list.splits tok.splits)

lemma apart_simps [simp]:
  "apart pre None = None"
  "apart pre (Some (ts, j)) = Some (pre @ ts, False)"
  by (auto simp: apart_def)

lemmas lex_defs = at_break_def bare_ok_def name_char_def is_alpha_def
  is_digit_def dq_step_def scan_name_def

lemmas run_defs = classify_def keyword_def reserved_def exec_simple_def exec_echo_def
  exec_test_def expand_def echo_text_def

lemma lit_other [simp]:
  "q \<noteq> [] \<Longrightarrow> lit q (Bare c # segs) = Quoted q # Bare c # segs"
  "q \<noteq> [] \<Longrightarrow> lit q (Param n # segs) = Quoted q # Param n # segs"
  "q \<noteq> [] \<Longrightarrow> lit q (Status # segs) = Quoted q # Status # segs"
  "q \<noteq> [] \<Longrightarrow> lit q (Arith e # segs) = Quoted q # Arith e # segs"
  "q \<noteq> [] \<Longrightarrow> lit q (CmdSub t # segs) = Quoted q # CmdSub t # segs"
  by (simp_all add: lit_def)

lemma ranged_Some [simp]: "- (2 ^ 63) \<le> i \<Longrightarrow> i < 2 ^ 63 \<Longrightarrow> ranged (Some i) = Some i"
  by (simp add: ranged_def)

lemma show_int_int [simp]: "show_int (int n) = show_nat n"
  by (simp add: show_int_def)

lemma numeric_not_bs: "numeric c \<Longrightarrow> c \<noteq> bs"
  by (auto simp: numeric_def is_digit_def)

lemma show_int_no_bs [simp]: "bs \<notin> set (show_int e)"
  using show_int_numeric [of e] by (auto simp: list_all_iff dest: numeric_not_bs)

lemma show_nat_no_bs [simp]: "bs \<notin> set (show_nat n)"
  using show_int_no_bs [of "int n"] by (simp del: show_int_no_bs)

lemma show_nat_nonempty' [simp]: "(show_nat n = []) = False"
  by (simp add: show_nat_nonempty)

lemma ranged_nat [simp]: "n < 2 ^ 63 \<Longrightarrow> ranged (Some (int n)) = Some (int n)"
  by (simp add: ranged_def)



lemma parse_int_zero [simp]: "parse_int ''0'' = Some 0"
  using parse_int_show_nat [of 0] by (simp add: show_nat_zero)

lemma parse_nat_small [simp]:
  "parse_nat ''1'' = Some 1"
  "parse_nat ''2'' = Some 2"
  by (simp_all add: parse_nat_def digit_val_def)

lemma show_int_zero [simp]: "show_int 0 = show_nat 0"
  by (simp add: show_int_def)


text \<open>
The path of write-chunk inside the quotes of the script.
\<close>

lemma scan_cmdsub_literal:
  "dq_literal q \<Longrightarrow>
   scan_cmdsub True (q @ r) =
     (case scan_cmdsub True r of None \<Rightarrow> None | Some (t, r') \<Rightarrow> Some (q @ t, r'))"
  by (induction q) (auto simp: dq_literal_def split: option.splits)

lemma scan_sq_literal: "sq \<notin> set t \<Longrightarrow> scan_sq (t @ sq # r) = Some (t, r)"
  by (induction t) auto

lemma escapedContent_plain: "sq \<notin> set t \<Longrightarrow> escapedContent t = t"
  by (induction t) auto














lemmas script_defs = sh_def writeChunkCommand_def writeCommand_def escapedContent_plain
      scan_sq_literal lex_defs scan_dq_literal scan_cmdsub_literal 
      run_defs login_def substitute_def write_file_def read_file_def node_def
      parse_int_show_nat

lemma show_int_one [simp]: "show_int 1 = show_nat 1"
  by (simp add: show_int_def)



lemma user_path:
  "map_option (\<lambda>(s, code). (fileContent (machine s) ''/tmp/$USER.txt'',
        fileContent (machine s) ''/tmp/dev.txt'', code))
     (sh (writeChunkCommand ''/tmp/$USER.txt'' ''A'' ''append'') (login exampleHost)) =
   Some (None, Some (''A'' @ [nl]), 0)"
  apply (simp add: script_defs exampleHost_def fileContent_def dirname_def strip_newlines_def)
  done





subsection \<open>ssh-edit-block: the reported count\<close>



subsection \<open>ssh-write-chunk: appending twice\<close>




end
